theory Spec2Isabelle
  imports Main "HOL-Library.Word"
begin

section \<open>The jsonpath executor (jsonpath\_exec.c): data model\<close>

text \<open>
  The executor is embedded function by function.  Everything it reports with
  \<^verbatim>\<open>ereport(ERROR, ...)\<close> or \<^verbatim>\<open>elog(ERROR, ...)\<close> leaves the C function by a
  non-local exit; here it is the \<open>Inl\<close> branch of a sum.  Routines of the host database
  that are called but not defined in jsonpath\_exec.c (numeric and datetime comparison,
  encoding conversion, the jsonb serialiser, the dispatch of the path walker on the
  remaining item kinds) are parameters of the functions that call them, so that every
  theorem holds for each behaviour of the host.
\<close>

subsection \<open>Errors and statuses\<close>

datatype ErrCode =
    ERRCODE_FEATURE_NOT_SUPPORTED
  | ERRCODE_SINGLETON_SQL_JSON_ITEM_REQUIRED
  | ERRCODE_SQL_JSON_NUMBER_NOT_FOUND
  | ERRCODE_SQL_JSON_OBJECT_NOT_FOUND
  | ERRCODE_SQL_JSON_ARRAY_NOT_FOUND
  | ERRCODE_SQL_JSON_MEMBER_NOT_FOUND
  | ERRCODE_INVALID_SQL_JSON_SUBSCRIPT
  | ERRCODE_NON_NUMERIC_SQL_JSON_ITEM
  | ERRCODE_INVALID_ARGUMENT_FOR_SQL_JSON_DATETIME_FUNCTION
  | ERRCODE_SQL_JSON_SCALAR_REQUIRED
  | ERRCODE_MORE_THAN_ONE_SQL_JSON_ITEM
  | ERRCODE_INVALID_PARAMETER_VALUE
  | ERRCODE_UNDEFINED_OBJECT
  | ERRCODE_DIVISION_BY_ZERO
  | ERRCODE_STATEMENT_TOO_COMPLEX
  | ERRCODE_INTERNAL_ERROR

text \<open>A raised error: its code and the format string of its message.\<close>

datatype error = ereport ErrCode string

text \<open>\<^verbatim>\<open>elog(ERROR, msg)\<close> raises with the internal-error code.\<close>

definition elog :: "string \<Rightarrow> error" where
  "elog msg = ereport ERRCODE_INTERNAL_ERROR msg"

text \<open>Result of jsonpath predicate evaluation.\<close>

datatype JsonPathBool = jpbFalse | jpbTrue | jpbUnknown

text \<open>Result of jsonpath expression evaluation.\<close>

datatype JsonPathExecResult = jperOk | jperNotFound | jperError

definition jperIsError :: "JsonPathExecResult \<Rightarrow> bool" where
  "jperIsError jper = (jper = jperError)"

subsection \<open>JSON values\<close>

type_synonym int32 = "32 word"
type_synonym int64 = "64 word"

text \<open>
  A \<^verbatim>\<open>Datum\<close> is one machine word; a pointer is an address, \<^verbatim>\<open>NULL\<close> being 0.
\<close>

type_synonym Datum = "64 word"
type_synonym pointer = "64 word"

text \<open>
  Modelled from the spec: the host's \<^verbatim>\<open>Numeric\<close> type is not declared in
  jsonpath\_exec.c.  "Number is arbitrary-precision decimal": a finite value is a
  coefficient with a decimal scale, next to the NaN and the infinities that the item
  methods reject.
\<close>

datatype Numeric =
    NumericNaN
  | NumericPInf
  | NumericNInf
  | NumericFinite int nat

text \<open>\<^verbatim>\<open>int64_to_numeric\<close>: the 64-bit signed integer as a decimal of scale 0.\<close>

definition int64_to_numeric :: "int64 \<Rightarrow> Numeric" where
  "int64_to_numeric v = NumericFinite (sint v) 0"

text \<open>
  The type oids of the datetime family, the only ones that \<^verbatim>\<open>compareDatetime\<close>
  distinguishes; every other oid is \<open>OTHEROID\<close>.
\<close>

datatype Oid = DATEOID | TIMEOID | TIMETZOID | TIMESTAMPOID | TIMESTAMPTZOID
  | OTHEROID "32 word"

datatype jbvType =
    jbvNull | jbvString | jbvNumeric | jbvBool
  | jbvArray | jbvObject | jbvBinary | jbvDatetime

text \<open>
  \<^verbatim>\<open>JsonbValue\<close> is a tag with a union; each constructor is one tag with its member
  of the union.  A binary value points to a \<^verbatim>\<open>JsonbContainer\<close>, which lies at an
  address and is an object, an array, or the one-element raw array holding a scalar.
\<close>

datatype JsonbValue =
    JsonbNull
  | JsonbString string
  | JsonbNumeric Numeric
  | JsonbBool bool
  | JsonbArray "JsonbValue list"
  | JsonbObject "(string \<times> JsonbValue) list"
  | JsonbBinary JsonbContainer
  | JsonbDatetime Datum Oid int32 int
and JsonbContainer =
    JsonbContainer (jbc_addr: pointer) (jbc_data: JsonbContainerData)
and JsonbContainerData =
    JBObject "(string \<times> JsonbValue) list"
  | JBArray "JsonbValue list"
  | JBScalar JsonbValue

fun jbv_type :: "JsonbValue \<Rightarrow> jbvType" where
  "jbv_type JsonbNull = jbvNull"
| "jbv_type (JsonbString s) = jbvString"
| "jbv_type (JsonbNumeric n) = jbvNumeric"
| "jbv_type (JsonbBool b) = jbvBool"
| "jbv_type (JsonbArray xs) = jbvArray"
| "jbv_type (JsonbObject ps) = jbvObject"
| "jbv_type (JsonbBinary c) = jbvBinary"
| "jbv_type (JsonbDatetime v t m z) = jbvDatetime"

subsection \<open>Path items\<close>

datatype JsonPathItemType =
    jpiNull | jpiString | jpiNumeric | jpiBool
  | jpiAnd | jpiOr | jpiNot | jpiIsUnknown
  | jpiEqual | jpiNotEqual | jpiLess | jpiGreater | jpiLessOrEqual | jpiGreaterOrEqual
  | jpiAdd | jpiSub | jpiMul | jpiDiv | jpiMod | jpiPlus | jpiMinus
  | jpiAnyArray | jpiAnyKey | jpiIndexArray | jpiAny | jpiKey
  | jpiCurrent | jpiRoot | jpiVariable | jpiFilter | jpiExists
  | jpiType | jpiSize | jpiAbs | jpiFloor | jpiCeiling | jpiDouble
  | jpiDatetime | jpiKeyValue | jpiSubscript | jpiLast
  | jpiStartsWith | jpiLikeRegex
  | jpiBigint | jpiBoolean | jpiDate | jpiDecimal | jpiInteger | jpiNumber
  | jpiStringFunc | jpiTime | jpiTimeTz | jpiTimestamp | jpiTimestampTz

section \<open>The comparison kernel\<close>

subsection \<open>Strings\<close>

text \<open>
  \<^verbatim>\<open>memcmp\<close> over the first \<open>n\<close> bytes of two buffers that hold at least \<open>n\<close>
  bytes each: the sign of the first difference, bytes read as unsigned.
\<close>

fun memcmp :: "string \<Rightarrow> string \<Rightarrow> nat \<Rightarrow> int32" where
  "memcmp s1 s2 0 = 0"
| "memcmp (c1 # s1) (c2 # s2) (Suc n) =
     (if (of_char c1 :: nat) < of_char c2 then - 1
      else if (of_char c2 :: nat) < of_char c1 then 1
      else memcmp s1 s2 n)"
| "memcmp s1 s2 (Suc n) = 0"

text \<open>Perform per-byte comparison of two strings.\<close>

definition binaryCompareStrings :: "string \<Rightarrow> string \<Rightarrow> int32" where
  "binaryCompareStrings s1 s2 =
     (let cmp = memcmp s1 s2 (min (length s1) (length s2)) in
      if cmp \<noteq> 0 then cmp
      else if length s1 = length s2 then 0
      else if length s1 < length s2 then - 1 else 1)"

text \<open>
  The functions of the host that the modelled functions call.  \<open>utf8_or_ascii\<close> is the
  test \<^verbatim>\<open>GetDatabaseEncoding() == PG_SQL_ASCII || GetDatabaseEncoding() == PG_UTF8\<close>;
  \<open>pg_server_to_any\<close> converts a string of the server encoding to UTF-8 and returns
  \<open>None\<close> when it hands back its argument as it is.  \<open>RE_compile_and_execute\<close> takes
  the pattern, the string and the compile flags.  \<open>JsonbValueToJsonb\<close> serialises a value
  and returns the root container of the new jsonb.  An arithmetic function such as
  \<open>numeric_add_opt_error\<close> gives its result, or the error that it raises when its last
  argument is \<^verbatim>\<open>NULL\<close> and flags otherwise.
\<close>

record Host =
  utf8_or_ascii :: bool
  pg_server_to_any :: "string \<Rightarrow> string option"
  numeric_cmp :: "Numeric \<Rightarrow> Numeric \<Rightarrow> int32"
  date_cmp :: "Datum \<Rightarrow> Datum \<Rightarrow> int32"
  time_cmp :: "Datum \<Rightarrow> Datum \<Rightarrow> int32"
  timetz_cmp :: "Datum \<Rightarrow> Datum \<Rightarrow> int32"
  timestamp_cmp :: "Datum \<Rightarrow> Datum \<Rightarrow> int32"
  time_timetz :: "Datum \<Rightarrow> Datum"
  date_cmp_timestamp_internal :: "Datum \<Rightarrow> Datum \<Rightarrow> int32"
  date_cmp_timestamptz_internal :: "Datum \<Rightarrow> Datum \<Rightarrow> int32"
  timestamp_cmp_timestamptz_internal :: "Datum \<Rightarrow> Datum \<Rightarrow> int32"
  jspConvertRegexFlags :: "32 word \<Rightarrow> 32 word"
  RE_compile_and_execute :: "string \<Rightarrow> string \<Rightarrow> 32 word \<Rightarrow> error + bool"
  JsonbValueToJsonb :: "JsonbValue \<Rightarrow> JsonbContainer"
  numeric_add_opt_error :: "Numeric \<Rightarrow> Numeric \<Rightarrow> error + Numeric"
  numeric_sub_opt_error :: "Numeric \<Rightarrow> Numeric \<Rightarrow> error + Numeric"
  numeric_mul_opt_error :: "Numeric \<Rightarrow> Numeric \<Rightarrow> error + Numeric"
  numeric_div_opt_error :: "Numeric \<Rightarrow> Numeric \<Rightarrow> error + Numeric"
  numeric_mod_opt_error :: "Numeric \<Rightarrow> Numeric \<Rightarrow> error + Numeric"
  numeric_uminus :: "Numeric \<Rightarrow> Numeric"

text \<open>
  Compare two strings in the current server encoding using Unicode codepoint collation.
\<close>

definition compareStrings :: "Host \<Rightarrow> string \<Rightarrow> string \<Rightarrow> int32" where
  "compareStrings h mbstr1 mbstr2 =
     (if utf8_or_ascii h then binaryCompareStrings mbstr1 mbstr2
      else
        let conv1 = pg_server_to_any h mbstr1;
            conv2 = pg_server_to_any h mbstr2;
            utf8str1 = (case conv1 of None \<Rightarrow> mbstr1 | Some s \<Rightarrow> s);
            utf8str2 = (case conv2 of None \<Rightarrow> mbstr2 | Some s \<Rightarrow> s);
            cmp = binaryCompareStrings utf8str1 utf8str2
        in
          if conv1 = None \<and> conv2 = None then cmp
          else if cmp = 0 then binaryCompareStrings mbstr1 mbstr2
          else cmp)"

subsection \<open>Datetimes\<close>

text \<open>Check if the timezone required for casting from type1 to type2 is used.\<close>

definition checkTimezoneIsUsedForCast :: "bool \<Rightarrow> string \<Rightarrow> string \<Rightarrow> error + unit" where
  "checkTimezoneIsUsedForCast useTz type1 type2 =
     (if \<not> useTz
      then Inl (ereport ERRCODE_FEATURE_NOT_SUPPORTED
                  (''cannot convert value from '' @ type1 @ '' to '' @ type2 @
                   '' without time zone usage''))
      else Inr ())"

text \<open>Convert time datum to timetz datum.\<close>

definition castTimeToTimeTz :: "Host \<Rightarrow> Datum \<Rightarrow> bool \<Rightarrow> error + Datum" where
  "castTimeToTimeTz h time useTz =
     (case checkTimezoneIsUsedForCast useTz ''time'' ''timetz'' of
        Inl e \<Rightarrow> Inl e
      | Inr u \<Rightarrow> Inr (time_timetz h time))"

text \<open>Compare date to timestamp; this does not involve any timezone considerations.\<close>

definition cmpDateToTimestamp :: "Host \<Rightarrow> Datum \<Rightarrow> Datum \<Rightarrow> bool \<Rightarrow> error + int32" where
  "cmpDateToTimestamp h date1 ts2 useTz = Inr (date_cmp_timestamp_internal h date1 ts2)"

text \<open>Compare date to timestamptz.\<close>

definition cmpDateToTimestampTz :: "Host \<Rightarrow> Datum \<Rightarrow> Datum \<Rightarrow> bool \<Rightarrow> error + int32" where
  "cmpDateToTimestampTz h date1 tstz2 useTz =
     (case checkTimezoneIsUsedForCast useTz ''date'' ''timestamptz'' of
        Inl e \<Rightarrow> Inl e
      | Inr u \<Rightarrow> Inr (date_cmp_timestamptz_internal h date1 tstz2))"

text \<open>Compare timestamp to timestamptz.\<close>

definition cmpTimestampToTimestampTz :: "Host \<Rightarrow> Datum \<Rightarrow> Datum \<Rightarrow> bool \<Rightarrow> error + int32" where
  "cmpTimestampToTimestampTz h ts1 tstz2 useTz =
     (case checkTimezoneIsUsedForCast useTz ''timestamp'' ''timestamptz'' of
        Inl e \<Rightarrow> Inl e
      | Inr u \<Rightarrow> Inr (timestamp_cmp_timestamptz_internal h ts1 tstz2))"

text \<open>The unary minus applied to the result of a comparison that may have raised.\<close>

definition negate :: "error + int32 \<Rightarrow> error + int32" where
  "negate r = (case r of Inl e \<Rightarrow> Inl e | Inr c \<Rightarrow> Inr (- c))"

text \<open>
  Cross-type comparison of two datetime SQL/JSON items.  The result is the pair of the
  returned integer and the flag \<^verbatim>\<open>*cast_error\<close>, which is set when the items are
  uncomparable.  If the cast requires timezone and it is not used, the error is raised.
\<close>

definition unrecognized_oid :: "error + int32 \<times> bool" where
  "unrecognized_oid = Inl (elog ''unrecognized SQL/JSON datetime type oid: %u'')"

definition uncomparable :: "error + int32 \<times> bool" where
  "uncomparable = Inr (0, True)"

definition returns :: "error + int32 \<Rightarrow> error + int32 \<times> bool" where
  "returns r = (case r of Inl e \<Rightarrow> Inl e | Inr c \<Rightarrow> Inr (c, False))"

definition compareDatetime ::
  "Host \<Rightarrow> Datum \<Rightarrow> Oid \<Rightarrow> Datum \<Rightarrow> Oid \<Rightarrow> bool \<Rightarrow> error + int32 \<times> bool" where
  "compareDatetime h val1 typid1 val2 typid2 useTz =
     (case typid1 of
        DATEOID \<Rightarrow>
          (case typid2 of
             DATEOID \<Rightarrow> returns (Inr (date_cmp h val1 val2))
           | TIMESTAMPOID \<Rightarrow> returns (cmpDateToTimestamp h val1 val2 useTz)
           | TIMESTAMPTZOID \<Rightarrow> returns (cmpDateToTimestampTz h val1 val2 useTz)
           | TIMEOID \<Rightarrow> uncomparable
           | TIMETZOID \<Rightarrow> uncomparable
           | OTHEROID x \<Rightarrow> unrecognized_oid)
      | TIMEOID \<Rightarrow>
          (case typid2 of
             TIMEOID \<Rightarrow> returns (Inr (time_cmp h val1 val2))
           | TIMETZOID \<Rightarrow>
               (case castTimeToTimeTz h val1 useTz of
                  Inl e \<Rightarrow> Inl e
                | Inr val1' \<Rightarrow> returns (Inr (timetz_cmp h val1' val2)))
           | DATEOID \<Rightarrow> uncomparable
           | TIMESTAMPOID \<Rightarrow> uncomparable
           | TIMESTAMPTZOID \<Rightarrow> uncomparable
           | OTHEROID x \<Rightarrow> unrecognized_oid)
      | TIMETZOID \<Rightarrow>
          (case typid2 of
             TIMEOID \<Rightarrow>
               (case castTimeToTimeTz h val2 useTz of
                  Inl e \<Rightarrow> Inl e
                | Inr val2' \<Rightarrow> returns (Inr (timetz_cmp h val1 val2')))
           | TIMETZOID \<Rightarrow> returns (Inr (timetz_cmp h val1 val2))
           | DATEOID \<Rightarrow> uncomparable
           | TIMESTAMPOID \<Rightarrow> uncomparable
           | TIMESTAMPTZOID \<Rightarrow> uncomparable
           | OTHEROID x \<Rightarrow> unrecognized_oid)
      | TIMESTAMPOID \<Rightarrow>
          (case typid2 of
             DATEOID \<Rightarrow> returns (negate (cmpDateToTimestamp h val2 val1 useTz))
           | TIMESTAMPOID \<Rightarrow> returns (Inr (timestamp_cmp h val1 val2))
           | TIMESTAMPTZOID \<Rightarrow> returns (cmpTimestampToTimestampTz h val1 val2 useTz)
           | TIMEOID \<Rightarrow> uncomparable
           | TIMETZOID \<Rightarrow> uncomparable
           | OTHEROID x \<Rightarrow> unrecognized_oid)
      | TIMESTAMPTZOID \<Rightarrow>
          (case typid2 of
             DATEOID \<Rightarrow> returns (negate (cmpDateToTimestampTz h val2 val1 useTz))
           | TIMESTAMPOID \<Rightarrow> returns (negate (cmpTimestampToTimestampTz h val2 val1 useTz))
           | TIMESTAMPTZOID \<Rightarrow> returns (Inr (timestamp_cmp h val1 val2))
           | TIMEOID \<Rightarrow> uncomparable
           | TIMETZOID \<Rightarrow> uncomparable
           | OTHEROID x \<Rightarrow> unrecognized_oid)
      | OTHEROID x \<Rightarrow> unrecognized_oid)"

subsection \<open>Items\<close>

text \<open>Compare two numerics.\<close>

definition compareNumeric :: "Host \<Rightarrow> Numeric \<Rightarrow> Numeric \<Rightarrow> int32" where
  "compareNumeric h a b = numeric_cmp h a b"

text \<open>The final switch of \<^verbatim>\<open>compareItems\<close>: the operation applied to the integer.\<close>

definition compareItems_op :: "JsonPathItemType \<Rightarrow> int32 \<Rightarrow> error + JsonPathBool" where
  "compareItems_op op cmp =
     (let lift = (\<lambda>res. if res then jpbTrue else jpbFalse) in
      if op = jpiEqual then Inr (lift (cmp = 0))
      else if op = jpiNotEqual then Inr (lift (cmp \<noteq> 0))
      else if op = jpiLess then Inr (lift (cmp <s 0))
      else if op = jpiGreater then Inr (lift (0 <s cmp))
      else if op = jpiLessOrEqual then Inr (lift (cmp \<le>s 0))
      else if op = jpiGreaterOrEqual then Inr (lift (0 \<le>s cmp))
      else Inl (elog ''unrecognized jsonpath operation: %d''))"

text \<open>Compare two SQL/JSON items using comparison operation \<open>op\<close>.\<close>

fun compareItems ::
  "Host \<Rightarrow> JsonPathItemType \<Rightarrow> JsonbValue \<Rightarrow> JsonbValue \<Rightarrow> bool \<Rightarrow> error + JsonPathBool" where
  "compareItems h op jb1 jb2 useTz =
     (if jbv_type jb1 \<noteq> jbv_type jb2 then
        (if jbv_type jb1 = jbvNull \<or> jbv_type jb2 = jbvNull
         then Inr (if op = jpiNotEqual then jpbTrue else jpbFalse)
         else Inr jpbUnknown)
      else
        (case (jb1, jb2) of
           (JsonbNull, _) \<Rightarrow> compareItems_op op 0
         | (JsonbBool b1, JsonbBool b2) \<Rightarrow>
             compareItems_op op (if b1 = b2 then 0 else if b1 then 1 else - 1)
         | (JsonbNumeric n1, JsonbNumeric n2) \<Rightarrow>
             compareItems_op op (compareNumeric h n1 n2)
         | (JsonbString s1, JsonbString s2) \<Rightarrow>
             (if op = jpiEqual
              then Inr (if length s1 \<noteq> length s2 \<or> memcmp s1 s2 (length s1) \<noteq> 0
                        then jpbFalse else jpbTrue)
              else compareItems_op op (compareStrings h s1 s2))
         | (JsonbDatetime v1 t1 m1 z1, JsonbDatetime v2 t2 m2 z2) \<Rightarrow>
             (case compareDatetime h v1 t1 v2 t2 useTz of
                Inl e \<Rightarrow> Inl e
              | Inr (cmp, cast_error) \<Rightarrow>
                  if cast_error then Inr jpbUnknown else compareItems_op op cmp)
         | _ \<Rightarrow> Inr jpbUnknown))"

section \<open>Sequences of items\<close>

text \<open>List of jsonb values with shortcut for single-value list.\<close>

record JsonValueList =
  jvl_singleton :: "JsonbValue option"
  jvl_list :: "JsonbValue list"

text \<open>The initializer \<^verbatim>\<open>{0}\<close>: no singleton and the empty list \<^verbatim>\<open>NIL\<close>.\<close>

definition JsonValueListInit :: JsonValueList where
  "JsonValueListInit = \<lparr>jvl_singleton = None, jvl_list = []\<rparr>"

definition JsonValueListClear :: "JsonValueList \<Rightarrow> JsonValueList" where
  "JsonValueListClear jvl = jvl\<lparr>jvl_singleton := None, jvl_list := []\<rparr>"

definition JsonValueListAppend :: "JsonValueList \<Rightarrow> JsonbValue \<Rightarrow> JsonValueList" where
  "JsonValueListAppend jvl jbv =
     (case jvl_singleton jvl of
        Some s \<Rightarrow> jvl\<lparr>jvl_list := [s, jbv], jvl_singleton := None\<rparr>
      | None \<Rightarrow>
          if jvl_list jvl = [] then jvl\<lparr>jvl_singleton := Some jbv\<rparr>
          else jvl\<lparr>jvl_list := jvl_list jvl @ [jbv]\<rparr>)"

definition JsonValueListLength :: "JsonValueList \<Rightarrow> int" where
  "JsonValueListLength jvl =
     (case jvl_singleton jvl of Some s \<Rightarrow> 1 | None \<Rightarrow> int (length (jvl_list jvl)))"

definition JsonValueListIsEmpty :: "JsonValueList \<Rightarrow> bool" where
  "JsonValueListIsEmpty jvl = (jvl_singleton jvl = None \<and> jvl_list jvl = [])"

text \<open>
  The head of the list; \<open>None\<close> stands for \<^verbatim>\<open>linitial\<close> of the empty list, which the
  callers exclude by testing the length first.
\<close>

definition JsonValueListHead :: "JsonValueList \<Rightarrow> JsonbValue option" where
  "JsonValueListHead jvl =
     (case jvl_singleton jvl of
        Some s \<Rightarrow> Some s
      | None \<Rightarrow> (case jvl_list jvl of [] \<Rightarrow> None | x # xs \<Rightarrow> Some x))"

definition JsonValueListGetList :: "JsonValueList \<Rightarrow> JsonbValue list" where
  "JsonValueListGetList jvl =
     (case jvl_singleton jvl of Some s \<Rightarrow> [s] | None \<Rightarrow> jvl_list jvl)"

text \<open>
  The iterator: the value to hand out next, the list, and the cell after that value.  A
  cell of a list is the part of the list that starts at it; \<^verbatim>\<open>NULL\<close> is the empty part.
\<close>

record JsonValueListIterator =
  it_value :: "JsonbValue option"
  it_list :: "JsonbValue list"
  it_next :: "JsonbValue list"

definition JsonValueListInitIterator :: "JsonValueList \<Rightarrow> JsonValueListIterator" where
  "JsonValueListInitIterator jvl =
     (case jvl_singleton jvl of
        Some s \<Rightarrow> \<lparr>it_value = Some s, it_list = [], it_next = []\<rparr>
      | None \<Rightarrow>
          (case jvl_list jvl of
             x # xs \<Rightarrow> \<lparr>it_value = Some x, it_list = jvl_list jvl, it_next = xs\<rparr>
           | [] \<Rightarrow> \<lparr>it_value = None, it_list = [], it_next = []\<rparr>))"

text \<open>Get the next item from the sequence advancing iterator.\<close>

definition JsonValueListNext ::
  "JsonValueListIterator \<Rightarrow> JsonbValue option \<times> JsonValueListIterator" where
  "JsonValueListNext it =
     (let result = it_value it in
      case it_next it of
        x # xs \<Rightarrow> (result, it\<lparr>it_value := Some x, it_next := xs\<rparr>)
      | [] \<Rightarrow> (result, it\<lparr>it_value := None\<rparr>))"

text \<open>
  The items that a loop \<^verbatim>\<open>while ((item = JsonValueListNext(&seq, &it)))\<close> visits from the
  state \<open>it\<close> of the iterator on.
\<close>

definition JsonValueListRest :: "JsonValueListIterator \<Rightarrow> JsonbValue list" where
  "JsonValueListRest it =
     (case it_value it of None \<Rightarrow> [] | Some v \<Rightarrow> v # it_next it)"

section \<open>The execution context and the path items\<close>

text \<open>Represents "base object" and its "id" for .keyvalue() evaluation.\<close>

record JsonBaseObjectInfo =
  bo_jbc :: pointer
  bo_id :: int32

text \<open>
  Context of jsonpath execution.  The variables and the callback that reads them are
  consulted by the walker's case for variables only, which is a parameter below; they are
  not fields here.
\<close>

record JsonPathExecContext =
  root :: JsonbValue
  current :: JsonbValue
  baseObject :: JsonBaseObjectInfo
  lastGeneratedObjectId :: int32
  innermostArraySize :: int32
  laxMode :: bool
  ignoreStructuralErrors :: bool
  throwErrors :: bool
  useTz :: bool

text \<open>strict/lax flags is decomposed into four [un]wrap/error flags.\<close>

definition jspStrictAbsenceOfErrors :: "JsonPathExecContext \<Rightarrow> bool" where
  "jspStrictAbsenceOfErrors cxt = (\<not> laxMode cxt)"

definition jspAutoUnwrap :: "JsonPathExecContext \<Rightarrow> bool" where
  "jspAutoUnwrap cxt = laxMode cxt"

definition jspAutoWrap :: "JsonPathExecContext \<Rightarrow> bool" where
  "jspAutoWrap cxt = laxMode cxt"

definition jspIgnoreStructuralErrors :: "JsonPathExecContext \<Rightarrow> bool" where
  "jspIgnoreStructuralErrors cxt = ignoreStructuralErrors cxt"

definition jspThrowErrors :: "JsonPathExecContext \<Rightarrow> bool" where
  "jspThrowErrors cxt = throwErrors cxt"

text \<open>
  A path item: its type, the member of the union \<^verbatim>\<open>content\<close> that its type uses, and the
  item that \<^verbatim>\<open>nextPos\<close> leads to.  Offsets into the compiled path are the items they
  lead to.
\<close>

datatype JsonPathItem =
  JsonPathItem (jsp_type: JsonPathItemType) (jsp_content: JsonPathContent)
    (jsp_next: "JsonPathItem option")
and JsonPathContent =
    content_none
  | content_args JsonPathItem JsonPathItem
  | content_arg JsonPathItem
  | content_array "(JsonPathItem \<times> JsonPathItem option) list"
  | content_anybounds "32 word" "32 word"
  | content_value JsonbValue
  | content_like_regex JsonPathItem string "32 word"

definition jspHasNext :: "JsonPathItem \<Rightarrow> bool" where
  "jspHasNext jsp = (jsp_next jsp \<noteq> None)"

text \<open>A compiled path: the lax flag of its header and its first item.\<close>

record JsonPath =
  JSONPATH_LAX :: bool
  jspInit :: JsonPathItem

text \<open>
  The status a function returns together with the context and the result list as it leaves
  them; \<open>None\<close> is the result list \<^verbatim>\<open>NULL\<close> of a caller that only asks for existence.
\<close>

type_synonym exec_result =
  "error + JsonPathExecResult \<times> JsonPathExecContext \<times> JsonValueList option"

text \<open>
  The type of \<^verbatim>\<open>executeItemOptUnwrapTarget\<close>, the walker: context, item, input value,
  result list, and the flag \<open>unwrap\<close>.
\<close>

type_synonym walker =
  "JsonPathExecContext \<Rightarrow> JsonPathItem \<Rightarrow> JsonbValue \<Rightarrow> JsonValueList option \<Rightarrow> bool
     \<Rightarrow> exec_result"

text \<open>
  \<^verbatim>\<open>RETURN_ERROR(throw_error)\<close>: return or throw error depending on context.
\<close>

definition RETURN_ERROR ::
  "JsonPathExecContext \<Rightarrow> JsonValueList option \<Rightarrow> error \<Rightarrow> exec_result" where
  "RETURN_ERROR cxt found throw_error =
     (if jspThrowErrors cxt then Inl throw_error else Inr (jperError, cxt, found))"

text \<open>
  The list a callee leaves behind in a local \<^verbatim>\<open>JsonValueList\<close> of its caller.  The
  caller passes the address of the local, so the callee cannot hand back \<^verbatim>\<open>NULL\<close>.
\<close>

definition local_list :: "JsonValueList option \<Rightarrow> JsonValueList" where
  "local_list found = (case found of Some jvl \<Rightarrow> jvl | None \<Rightarrow> JsonValueListInit)"

section \<open>Support functions for JsonPath execution\<close>

definition copyJsonbValue :: "JsonbValue \<Rightarrow> JsonbValue" where
  "copyJsonbValue src = src"

definition JsonContainerIsScalar :: "JsonbContainer \<Rightarrow> bool" where
  "JsonContainerIsScalar jbc = (case jbc_data jbc of JBScalar v \<Rightarrow> True | _ \<Rightarrow> False)"

definition JsonContainerIsObject :: "JsonbContainer \<Rightarrow> bool" where
  "JsonContainerIsObject jbc = (case jbc_data jbc of JBObject ps \<Rightarrow> True | _ \<Rightarrow> False)"

definition JsonContainerIsArray :: "JsonbContainer \<Rightarrow> bool" where
  "JsonContainerIsArray jbc = (case jbc_data jbc of JBObject ps \<Rightarrow> False | _ \<Rightarrow> True)"

definition JsonContainerSize :: "JsonbContainer \<Rightarrow> nat" where
  "JsonContainerSize jbc =
     (case jbc_data jbc of
        JBObject ps \<Rightarrow> length ps
      | JBArray xs \<Rightarrow> length xs
      | JBScalar v \<Rightarrow> 1)"

text \<open>
  The values that \<^verbatim>\<open>JsonbIteratorNext(&it, &v, true)\<close> hands out with the tokens
  \<^verbatim>\<open>WJB_VALUE\<close> and \<^verbatim>\<open>WJB_ELEM\<close>, in the container's stored order.
\<close>

fun JsonbIteratorValues :: "JsonbContainerData \<Rightarrow> JsonbValue list" where
  "JsonbIteratorValues (JBObject ps) = map snd ps"
| "JsonbIteratorValues (JBArray xs) = xs"
| "JsonbIteratorValues (JBScalar v) = [v]"

text \<open>Returns jbv* type of JsonbValue. Note, it never returns jbvBinary as is.\<close>

definition JsonbType :: "JsonbValue \<Rightarrow> jbvType" where
  "JsonbType jb =
     (case jb of
        JsonbBinary jbc \<Rightarrow> if JsonContainerIsObject jbc then jbvObject else jbvArray
      | _ \<Rightarrow> jbv_type jb)"

text \<open>Get scalar of given type or NULL on type mismatch.\<close>

definition getScalar :: "JsonbValue \<Rightarrow> jbvType \<Rightarrow> JsonbValue option" where
  "getScalar scalar type = (if jbv_type scalar = type then Some scalar else None)"

text \<open>Returns the size of an array item, or -1 if item is not an array.\<close>

definition JsonbArraySize :: "JsonbValue \<Rightarrow> int" where
  "JsonbArraySize jb =
     (case jb of
        JsonbBinary jbc \<Rightarrow>
          if JsonContainerIsArray jbc \<and> \<not> JsonContainerIsScalar jbc
          then int (JsonContainerSize jbc) else - 1
      | _ \<Rightarrow> - 1)"

text \<open>
  Save base object and its id needed for the execution of .keyvalue(): the saved base
  object is returned next to the context.
\<close>

definition setBaseObject ::
  "JsonPathExecContext \<Rightarrow> JsonbValue \<Rightarrow> int32 \<Rightarrow> JsonBaseObjectInfo \<times> JsonPathExecContext" where
  "setBaseObject cxt jbv ident =
     (baseObject cxt,
      cxt\<lparr>baseObject :=
        \<lparr>bo_jbc = (case jbv of JsonbBinary jbc \<Rightarrow> jbc_addr jbc | _ \<Rightarrow> 0),
         bo_id = ident\<rparr>\<rparr>)"

section \<open>The walker's helpers\<close>

text \<open>
  Execute jsonpath with automatic unwrapping of current item in lax mode.  \<open>T\<close> is the
  walker \<^verbatim>\<open>executeItemOptUnwrapTarget\<close>.
\<close>

definition executeItem ::
  "walker \<Rightarrow> JsonPathExecContext \<Rightarrow> JsonPathItem \<Rightarrow> JsonbValue \<Rightarrow> JsonValueList option
     \<Rightarrow> exec_result" where
  "executeItem T cxt jsp jb found = T cxt jsp jb found (jspAutoUnwrap cxt)"

text \<open>
  Execute next jsonpath item if exists.  Otherwise put \<open>v\<close> to the \<open>found\<close> list if
  provided.  Where \<open>cur\<close> and \<open>next\<close> are both given, \<open>next\<close> is the buffer that the
  caller filled with \<^verbatim>\<open>jspGetNext(cur, next)\<close>.
\<close>

definition executeNextItem ::
  "walker \<Rightarrow> JsonPathExecContext \<Rightarrow> JsonPathItem option \<Rightarrow> JsonPathItem option
     \<Rightarrow> JsonbValue \<Rightarrow> JsonValueList option \<Rightarrow> bool \<Rightarrow> exec_result" where
  "executeNextItem T cxt cur next v found copy =
     (let next' =
        (case cur of
           None \<Rightarrow> next
         | Some c \<Rightarrow>
             (case next of
                Some n \<Rightarrow> if jspHasNext c then Some n else None
              | None \<Rightarrow> jsp_next c))
      in
        case next' of
          Some n \<Rightarrow> executeItem T cxt n v found
        | None \<Rightarrow>
            Inr (jperOk, cxt,
                 map_option
                   (\<lambda>jvl. JsonValueListAppend jvl (if copy then copyJsonbValue v else v))
                   found))"

section \<open>Wildcard accessors and unwrapping\<close>

text \<open>
  One value of the container handed to the expression in \<^verbatim>\<open>executeAnyItem\<close>: the part of
  the loop body under the test of the level.  The result says whether the loop is left
  (by \<^verbatim>\<open>break\<close> or \<^verbatim>\<open>return\<close>) with the status given, or goes on.
\<close>

definition executeAnyItem_check ::
  "walker \<Rightarrow> JsonPathExecContext \<Rightarrow> JsonPathItem option \<Rightarrow> JsonbValue
     \<Rightarrow> JsonValueList option \<Rightarrow> bool \<Rightarrow> bool \<Rightarrow> JsonPathExecResult
     \<Rightarrow> error + bool \<times> JsonPathExecResult \<times> JsonPathExecContext \<times> JsonValueList option" where
  "executeAnyItem_check T cxt jsp v found ignoreStructuralErrors' unwrapNext res =
     (case jsp of
        Some j \<Rightarrow>
          (case (if ignoreStructuralErrors' then
                   (let savedIgnoreStructuralErrors = ignoreStructuralErrors cxt in
                    case T (cxt\<lparr>ignoreStructuralErrors := True\<rparr>) j v found unwrapNext of
                      Inl e \<Rightarrow> Inl e
                    | Inr (res', cxt', found') \<Rightarrow>
                        Inr (res',
                             cxt'\<lparr>ignoreStructuralErrors := savedIgnoreStructuralErrors\<rparr>,
                             found'))
                 else T cxt j v found unwrapNext) of
             Inl e \<Rightarrow> Inl e
           | Inr (res', cxt', found') \<Rightarrow>
               Inr (jperIsError res' \<or> (res' = jperOk \<and> found' = None), res', cxt', found'))
      | None \<Rightarrow>
          (case found of
             Some jvl \<Rightarrow>
               Inr (False, res, cxt, Some (JsonValueListAppend jvl (copyJsonbValue v)))
           | None \<Rightarrow> Inr (True, jperOk, cxt, found)))"

text \<open>The container of a binary value, for the recursion into it.\<close>

definition binary_data :: "JsonbValue \<Rightarrow> JsonbContainer option" where
  "binary_data v = (case v of JsonbBinary jbc \<Rightarrow> Some jbc | _ \<Rightarrow> None)"

lemma size_JsonbIteratorValues: "size_list size (JsonbIteratorValues d) \<le> size d"
proof (cases d)
  case (JBObject ps)
  have "size_list size (map snd ps) \<le> size_list (size_prod (\<lambda>x. 0) size) ps"
    by (induction ps) auto
  with JBObject show ?thesis by simp
qed simp_all

lemma size_binary_data: "binary_data v = Some jbc \<Longrightarrow> size jbc < size v"
  by (cases v) (simp_all add: binary_data_def)

lemma size_jbc_values:
  "2 * size_list size (JsonbIteratorValues (jbc_data jbc)) < Suc (2 * size jbc)"
  using size_JsonbIteratorValues [of "jbc_data jbc"] by (cases jbc) simp

text \<open>
  Implementation of several jsonpath nodes: jpiAny (.** accessor), jpiAnyKey (.* accessor),
  jpiAnyArray ([*] accessor).  The loop runs over the values of the container;
  \<^verbatim>\<open>PG_UINT32_MAX\<close> is the word \<open>- 1\<close>.
\<close>

function executeAnyItem ::
  "walker \<Rightarrow> JsonPathExecContext \<Rightarrow> JsonPathItem option \<Rightarrow> JsonbContainer
     \<Rightarrow> JsonValueList option \<Rightarrow> 32 word \<Rightarrow> 32 word \<Rightarrow> 32 word \<Rightarrow> bool \<Rightarrow> bool \<Rightarrow> exec_result"
and executeAnyItem_loop ::
  "walker \<Rightarrow> JsonPathExecContext \<Rightarrow> JsonPathItem option \<Rightarrow> JsonbValue list
     \<Rightarrow> JsonValueList option \<Rightarrow> 32 word \<Rightarrow> 32 word \<Rightarrow> 32 word \<Rightarrow> bool \<Rightarrow> bool
     \<Rightarrow> JsonPathExecResult \<Rightarrow> exec_result"
where
  "executeAnyItem T cxt jsp jbc found level first last' ignoreStructuralErrors' unwrapNext =
     (if last' < level then Inr (jperNotFound, cxt, found)
      else executeAnyItem_loop T cxt jsp (JsonbIteratorValues (jbc_data jbc)) found
             level first last' ignoreStructuralErrors' unwrapNext jperNotFound)"
| "executeAnyItem_loop T cxt jsp [] found level first last' ignoreStructuralErrors' unwrapNext
     res = Inr (res, cxt, found)"
| "executeAnyItem_loop T cxt jsp (v # vs) found level first last' ignoreStructuralErrors'
     unwrapNext res =
     (case (if first \<le> level \<or> (first = - 1 \<and> last' = - 1 \<and> jbv_type v \<noteq> jbvBinary)
            then executeAnyItem_check T cxt jsp v found ignoreStructuralErrors' unwrapNext res
            else Inr (False, res, cxt, found)) of
        Inl e \<Rightarrow> Inl e
      | Inr (leave, res1, cxt1, found1) \<Rightarrow>
          if leave then Inr (res1, cxt1, found1)
          else
            (case (if level < last' then binary_data v else None) of
               Some jbc \<Rightarrow>
                 (case executeAnyItem T cxt1 jsp jbc found1 (level + 1) first last'
                         ignoreStructuralErrors' unwrapNext of
                    Inl e \<Rightarrow> Inl e
                  | Inr (res2, cxt2, found2) \<Rightarrow>
                      if jperIsError res2 \<or> (res2 = jperOk \<and> found2 = None)
                      then Inr (res2, cxt2, found2)
                      else executeAnyItem_loop T cxt2 jsp vs found2 level first last'
                             ignoreStructuralErrors' unwrapNext res2)
             | None \<Rightarrow>
                 executeAnyItem_loop T cxt1 jsp vs found1 level first last'
                   ignoreStructuralErrors' unwrapNext res1))"
  by pat_completeness auto
termination
  by (relation "measure (\<lambda>x. case x of
          Inl (T, cxt, jsp, jbc, r) \<Rightarrow> 2 * size jbc + 1
        | Inr (T, cxt, jsp, vs, r) \<Rightarrow> 2 * size_list size vs)")
     (auto simp: size_jbc_values dest!: size_binary_data split: if_splits)

text \<open>Unwrap current array item and execute jsonpath for each of its elements.\<close>

definition executeItemUnwrapTargetArray ::
  "walker \<Rightarrow> JsonPathExecContext \<Rightarrow> JsonPathItem option \<Rightarrow> JsonbValue
     \<Rightarrow> JsonValueList option \<Rightarrow> bool \<Rightarrow> exec_result" where
  "executeItemUnwrapTargetArray T cxt jsp jb found unwrapElements =
     (case jb of
        JsonbBinary jbc \<Rightarrow> executeAnyItem T cxt jsp jbc found 1 1 1 False unwrapElements
      | _ \<Rightarrow> Inl (elog ''invalid jsonb array value type: %d''))"

text \<open>
  The loop of \<^verbatim>\<open>executeItemOptUnwrapResult\<close> over the sequence of the operand: an array is
  replaced by its elements, whose status is not looked at; every other item is appended.
\<close>

fun executeItemOptUnwrapResult_loop ::
  "walker \<Rightarrow> JsonPathExecContext \<Rightarrow> JsonbValue list \<Rightarrow> JsonValueList option \<Rightarrow> exec_result"
where
  "executeItemOptUnwrapResult_loop T cxt [] found = Inr (jperOk, cxt, found)"
| "executeItemOptUnwrapResult_loop T cxt (item # items) found =
     (if JsonbType item = jbvArray then
        (case executeItemUnwrapTargetArray T cxt None item found False of
           Inl e \<Rightarrow> Inl e
         | Inr (res, cxt', found') \<Rightarrow> executeItemOptUnwrapResult_loop T cxt' items found')
      else
        executeItemOptUnwrapResult_loop T cxt items
          (map_option (\<lambda>jvl. JsonValueListAppend jvl item) found))"

text \<open>
  Same as executeItem(), but when "unwrap == true" automatically unwraps each array item
  from the resulting sequence in lax mode.
\<close>

definition executeItemOptUnwrapResult ::
  "walker \<Rightarrow> JsonPathExecContext \<Rightarrow> JsonPathItem \<Rightarrow> JsonbValue \<Rightarrow> bool
     \<Rightarrow> JsonValueList option \<Rightarrow> exec_result" where
  "executeItemOptUnwrapResult T cxt jsp jb unwrap found =
     (if unwrap \<and> jspAutoUnwrap cxt then
        (case executeItem T cxt jsp jb (Some JsonValueListInit) of
           Inl e \<Rightarrow> Inl e
         | Inr (res, cxt', seq) \<Rightarrow>
             if jperIsError res then Inr (res, cxt', found)
             else executeItemOptUnwrapResult_loop T cxt'
                    (JsonValueListGetList (local_list seq)) found)
      else executeItem T cxt jsp jb found)"

text \<open>Same as executeItemOptUnwrapResult(), but with error suppression.\<close>

definition executeItemOptUnwrapResultNoThrow ::
  "walker \<Rightarrow> JsonPathExecContext \<Rightarrow> JsonPathItem \<Rightarrow> JsonbValue \<Rightarrow> bool
     \<Rightarrow> JsonValueList option \<Rightarrow> exec_result" where
  "executeItemOptUnwrapResultNoThrow T cxt jsp jb unwrap found =
     (let throwErrors' = throwErrors cxt in
      case executeItemOptUnwrapResult T (cxt\<lparr>throwErrors := False\<rparr>) jsp jb unwrap found of
        Inl e \<Rightarrow> Inl e
      | Inr (res, cxt', found') \<Rightarrow> Inr (res, cxt'\<lparr>throwErrors := throwErrors'\<rparr>, found'))"

section \<open>Interface to the jsonpath executor\<close>

text \<open>
  \<^verbatim>\<open>JsonbExtractScalar\<close> decodes a document whose root container holds a scalar;
  \<^verbatim>\<open>JsonbInitBinary\<close> wraps every other document as a binary value.
\<close>

definition JsonbInitBinary :: "JsonbContainer \<Rightarrow> JsonbValue" where
  "JsonbInitBinary jb = JsonbBinary jb"

definition JsonbExtractScalar :: "JsonbContainer \<Rightarrow> JsonbValue option" where
  "JsonbExtractScalar jbc = (case jbc_data jbc of JBScalar v \<Rightarrow> Some v | _ \<Rightarrow> None)"

text \<open>The context that \<^verbatim>\<open>executeJsonPath\<close> sets up before it runs the walker.\<close>

definition executeJsonPath_context ::
  "JsonPath \<Rightarrow> int32 \<Rightarrow> JsonbValue \<Rightarrow> bool \<Rightarrow> bool \<Rightarrow> JsonPathExecContext" where
  "executeJsonPath_context path countVars_vars jbv throwErrors' useTz' =
     \<lparr>root = jbv,
      current = jbv,
      baseObject = \<lparr>bo_jbc = 0, bo_id = 0\<rparr>,
      lastGeneratedObjectId = 1 + countVars_vars,
      innermostArraySize = - 1,
      laxMode = JSONPATH_LAX path,
      ignoreStructuralErrors = JSONPATH_LAX path,
      throwErrors = throwErrors',
      useTz = useTz'\<rparr>"

text \<open>
  Interface to jsonpath executor.  \<open>path\<close> is the jsonpath to be executed, \<open>vars\<close> the
  variables to be substituted, \<open>countVars\<close> the callback to count them, \<open>json\<close> the target
  document, \<open>throwErrors'\<close> whether suppressible errors are thrown, \<open>result\<close> the list to
  store result items into.  The callback \<^verbatim>\<open>getVar\<close> is called by the walker \<open>T\<close> alone.
  The status is returned together with the result list.
\<close>

definition executeJsonPath ::
  "walker \<Rightarrow> JsonPath \<Rightarrow> 'v \<Rightarrow> ('v \<Rightarrow> error + int32) \<Rightarrow> JsonbContainer \<Rightarrow> bool
     \<Rightarrow> JsonValueList option \<Rightarrow> bool
     \<Rightarrow> error + JsonPathExecResult \<times> JsonValueList option" where
  "executeJsonPath T path vars countVars json throwErrors' result useTz' =
     (let jsp = jspInit path;
          jbv = (case JsonbExtractScalar json of
                   Some v \<Rightarrow> v
                 | None \<Rightarrow> JsonbInitBinary json)
      in
        case countVars vars of
          Inl e \<Rightarrow> Inl e
        | Inr n \<Rightarrow>
            let cxt = executeJsonPath_context path n jbv throwErrors' useTz' in
            if jspStrictAbsenceOfErrors cxt \<and> result = None then
              (case executeItem T cxt jsp jbv (Some JsonValueListInit) of
                 Inl e \<Rightarrow> Inl e
               | Inr (res, cxt', vals) \<Rightarrow>
                   if jperIsError res then Inr (res, result)
                   else Inr (if JsonValueListIsEmpty (local_list vals)
                             then jperNotFound else jperOk, result))
            else
              (case executeItem T cxt jsp jbv result of
                 Inl e \<Rightarrow> Inl e
               | Inr (res, cxt', result') \<Rightarrow> Inr (res, result')))"

text \<open>
  Definition of JsonPathCountVarsCallback for when JsonPathExecContext.vars is specified
  as a jsonb value; \<open>None\<close> is the pointer \<^verbatim>\<open>NULL\<close>.
\<close>

definition countVariablesFromJsonb :: "JsonbContainer option \<Rightarrow> error + int32" where
  "countVariablesFromJsonb varsJsonb =
     (case varsJsonb of
        Some vars \<Rightarrow>
          if \<not> JsonContainerIsObject vars
          then Inl (ereport ERRCODE_INVALID_PARAMETER_VALUE
                      ''\"vars\" argument is not an object'')
          else Inr 1
      | None \<Rightarrow> Inr 0)"

text \<open>
  \<^verbatim>\<open>jsonb_path_match\<close>: returns jsonpath predicate result item for the specified jsonb
  value.  \<open>args\<close> holds the third and the fourth argument of the four-argument form
  (\<^verbatim>\<open>PG_NARGS() == 4\<close>).  The result \<open>None\<close> is the SQL null of \<^verbatim>\<open>PG_RETURN_NULL()\<close>.
\<close>

definition jsonb_path_match_internal ::
  "walker \<Rightarrow> JsonbContainer \<Rightarrow> JsonPath \<Rightarrow> (JsonbContainer \<times> bool) option \<Rightarrow> bool
     \<Rightarrow> error + bool option" where
  "jsonb_path_match_internal T jb jp args tz =
     (let vars = (case args of Some (v, s) \<Rightarrow> Some v | None \<Rightarrow> None);
          silent = (case args of Some (v, s) \<Rightarrow> s | None \<Rightarrow> True)
      in
        case executeJsonPath T jp vars countVariablesFromJsonb jb (\<not> silent)
               (Some JsonValueListInit) tz of
          Inl e \<Rightarrow> Inl e
        | Inr (res, found') \<Rightarrow>
            let found = local_list found';
                single =
                  (if JsonValueListLength found = 1
                   then (case JsonValueListHead found of
                           Some (JsonbBool boolean) \<Rightarrow> Some (Some boolean)
                         | Some JsonbNull \<Rightarrow> Some None
                         | _ \<Rightarrow> None)
                   else None)
            in
              case single of
                Some datum \<Rightarrow> Inr datum
              | None \<Rightarrow>
                  if \<not> silent
                  then Inl (ereport ERRCODE_SINGLETON_SQL_JSON_ITEM_REQUIRED
                              ''single boolean result is expected'')
                  else Inr None)"

section \<open>Predicates\<close>

text \<open>
  The content of an item that does not fit its type: the assertions of
  \<^verbatim>\<open>jspGetLeftArg\<close>, \<^verbatim>\<open>jspGetRightArg\<close> and \<^verbatim>\<open>jspGetArg\<close> exclude it, and a compiled
  path never has it.
\<close>

definition malformed_item :: error where
  "malformed_item = elog ''jsonpath item content does not fit its type''"

text \<open>
  A predicate callback takes the context (its \<^verbatim>\<open>param\<close>), the predicate's item, the left
  value and the right value, which is \<open>None\<close> for a predicate without right argument.
\<close>

type_synonym JsonPathPredicateCallback =
  "JsonPathExecContext \<Rightarrow> JsonPathItem \<Rightarrow> JsonbValue \<Rightarrow> JsonbValue option
     \<Rightarrow> error + JsonPathBool"

text \<open>Comparison predicate callback.  It is only called with a right value.\<close>

definition executeComparison :: "Host \<Rightarrow> JsonPathPredicateCallback" where
  "executeComparison h cxt cmp lv rv =
     (case rv of
        Some rv' \<Rightarrow> compareItems h (jsp_type cmp) lv rv' (useTz cxt)
      | None \<Rightarrow> Inl malformed_item)"

text \<open>
  STARTS_WITH predicate callback.  Check if the \<open>whole\<close> string starts from \<open>initial\<close>
  string.  It is only called with a right value.
\<close>

definition executeStartsWith :: JsonPathPredicateCallback where
  "executeStartsWith cxt jsp whole initial =
     (case initial of
        None \<Rightarrow> Inl malformed_item
      | Some initial' \<Rightarrow>
          (case (getScalar whole jbvString, getScalar initial' jbvString) of
             (Some (JsonbString w), Some (JsonbString i)) \<Rightarrow>
               Inr (if length i \<le> length w \<and> memcmp w i (length i) = 0
                    then jpbTrue else jpbFalse)
           | _ \<Rightarrow> Inr jpbUnknown))"

text \<open>LIKE_REGEX predicate callback.  Check if the string matches regex pattern.\<close>

definition executeLikeRegex :: "Host \<Rightarrow> JsonPathPredicateCallback" where
  "executeLikeRegex h cxt jsp str rarg =
     (case getScalar str jbvString of
        Some (JsonbString s) \<Rightarrow>
          (case jsp_content jsp of
             content_like_regex expr pattern flags \<Rightarrow>
               (case RE_compile_and_execute h pattern s (jspConvertRegexFlags h flags) of
                  Inl e \<Rightarrow> Inl e
                | Inr matches \<Rightarrow> Inr (if matches then jpbTrue else jpbFalse))
           | _ \<Rightarrow> Inl malformed_item)
      | _ \<Rightarrow> Inr jpbUnknown)"

text \<open>
  The loops of \<^verbatim>\<open>executePredicate\<close> over the pairs of a left and a right value, the left
  value in the outer loop; \<open>error\<close> and \<open>found\<close> are its two flags.
\<close>

fun executePredicate_loop ::
  "(JsonbValue \<Rightarrow> JsonbValue option \<Rightarrow> error + JsonPathBool) \<Rightarrow> bool
     \<Rightarrow> (JsonbValue \<times> JsonbValue option) list \<Rightarrow> bool \<Rightarrow> bool \<Rightarrow> error + JsonPathBool" where
  "executePredicate_loop exec strict [] error found =
     Inr (if found then jpbTrue else if error then jpbUnknown else jpbFalse)"
| "executePredicate_loop exec strict ((lval, rval) # pairs) error found =
     (case exec lval rval of
        Inl e \<Rightarrow> Inl e
      | Inr res \<Rightarrow>
          if res = jpbUnknown then
            (if strict then Inr jpbUnknown
             else executePredicate_loop exec strict pairs True found)
          else if res = jpbTrue then
            (if \<not> strict then Inr jpbTrue
             else executePredicate_loop exec strict pairs error True)
          else executePredicate_loop exec strict pairs error found)"

text \<open>
  Execute unary or binary predicate.

  Predicates have existence semantics, because their operands are item sequences.  Pairs
  of items from the left and right operand's sequences are checked.  TRUE returned only if
  any pair satisfying the condition is found.  In strict mode, even if the desired pair
  has already been found, all pairs still need to be examined to check the absence of
  errors.  If any error occurs, UNKNOWN (analogous to SQL NULL) is returned.
\<close>

definition executePredicate ::
  "walker \<Rightarrow> JsonPathExecContext \<Rightarrow> JsonPathItem \<Rightarrow> JsonPathItem \<Rightarrow> JsonPathItem option
     \<Rightarrow> JsonbValue \<Rightarrow> bool \<Rightarrow> JsonPathPredicateCallback
     \<Rightarrow> error + JsonPathBool \<times> JsonPathExecContext" where
  "executePredicate T cxt pred larg rarg jb unwrapRightArg exec =
     (case executeItemOptUnwrapResultNoThrow T cxt larg jb True (Some JsonValueListInit) of
        Inl e \<Rightarrow> Inl e
      | Inr (res, cxt1, lseq) \<Rightarrow>
          if jperIsError res then Inr (jpbUnknown, cxt1)
          else
            (case (case rarg of
                     Some rarg' \<Rightarrow>
                       executeItemOptUnwrapResultNoThrow T cxt1 rarg' jb unwrapRightArg
                         (Some JsonValueListInit)
                   | None \<Rightarrow> Inr (jperOk, cxt1, Some JsonValueListInit)) of
               Inl e \<Rightarrow> Inl e
             | Inr (res', cxt2, rseq) \<Rightarrow>
                 if jperIsError res' then Inr (jpbUnknown, cxt2)
                 else
                   (case executePredicate_loop (exec cxt2 pred)
                           (jspStrictAbsenceOfErrors cxt2)
                           (List.product (JsonValueListGetList (local_list lseq))
                              (if rarg = None then [None]
                               else map Some (JsonValueListGetList (local_list rseq))))
                           False False of
                      Inl e \<Rightarrow> Inl e
                    | Inr b \<Rightarrow> Inr (b, cxt2))))"

text \<open>The case of \<^verbatim>\<open>executeBoolItem\<close> for \<open>exists\<close>.\<close>

definition executeBoolItem_exists ::
  "walker \<Rightarrow> JsonPathExecContext \<Rightarrow> JsonPathItem \<Rightarrow> JsonbValue
     \<Rightarrow> error + JsonPathBool \<times> JsonPathExecContext" where
  "executeBoolItem_exists T cxt larg jb =
     (if jspStrictAbsenceOfErrors cxt then
        (case executeItemOptUnwrapResultNoThrow T cxt larg jb False
                (Some JsonValueListInit) of
           Inl e \<Rightarrow> Inl e
         | Inr (res, cxt', vals) \<Rightarrow>
             if jperIsError res then Inr (jpbUnknown, cxt')
             else Inr (if JsonValueListIsEmpty (local_list vals)
                       then jpbFalse else jpbTrue, cxt'))
      else
        (case executeItemOptUnwrapResultNoThrow T cxt larg jb False None of
           Inl e \<Rightarrow> Inl e
         | Inr (res, cxt', vals) \<Rightarrow>
             if jperIsError res then Inr (jpbUnknown, cxt')
             else Inr (if res = jperOk then jpbTrue else jpbFalse, cxt')))"

text \<open>Execute boolean-valued jsonpath expression.\<close>

fun executeBoolItem ::
  "walker \<Rightarrow> Host \<Rightarrow> JsonPathExecContext \<Rightarrow> JsonPathItem \<Rightarrow> JsonbValue \<Rightarrow> bool
     \<Rightarrow> error + JsonPathBool \<times> JsonPathExecContext" where
  "executeBoolItem T h cxt (JsonPathItem type content next) jb canHaveNext =
     (if \<not> canHaveNext \<and> next \<noteq> None
      then Inl (elog ''boolean jsonpath item cannot have next item'')
      else if type = jpiAnd then
        (case content of
           content_args larg rarg \<Rightarrow>
             (case executeBoolItem T h cxt larg jb False of
                Inl e \<Rightarrow> Inl e
              | Inr (res, cxt1) \<Rightarrow>
                  if res = jpbFalse then Inr (jpbFalse, cxt1)
                  else
                    (case executeBoolItem T h cxt1 rarg jb False of
                       Inl e \<Rightarrow> Inl e
                     | Inr (res2, cxt2) \<Rightarrow>
                         Inr (if res2 = jpbTrue then res else res2, cxt2)))
         | _ \<Rightarrow> Inl malformed_item)
      else if type = jpiOr then
        (case content of
           content_args larg rarg \<Rightarrow>
             (case executeBoolItem T h cxt larg jb False of
                Inl e \<Rightarrow> Inl e
              | Inr (res, cxt1) \<Rightarrow>
                  if res = jpbTrue then Inr (jpbTrue, cxt1)
                  else
                    (case executeBoolItem T h cxt1 rarg jb False of
                       Inl e \<Rightarrow> Inl e
                     | Inr (res2, cxt2) \<Rightarrow>
                         Inr (if res2 = jpbFalse then res else res2, cxt2)))
         | _ \<Rightarrow> Inl malformed_item)
      else if type = jpiNot then
        (case content of
           content_arg larg \<Rightarrow>
             (case executeBoolItem T h cxt larg jb False of
                Inl e \<Rightarrow> Inl e
              | Inr (res, cxt1) \<Rightarrow>
                  if res = jpbUnknown then Inr (jpbUnknown, cxt1)
                  else Inr (if res = jpbTrue then jpbFalse else jpbTrue, cxt1))
         | _ \<Rightarrow> Inl malformed_item)
      else if type = jpiIsUnknown then
        (case content of
           content_arg larg \<Rightarrow>
             (case executeBoolItem T h cxt larg jb False of
                Inl e \<Rightarrow> Inl e
              | Inr (res, cxt1) \<Rightarrow>
                  Inr (if res = jpbUnknown then jpbTrue else jpbFalse, cxt1))
         | _ \<Rightarrow> Inl malformed_item)
      else if type \<in> {jpiEqual, jpiNotEqual, jpiLess, jpiGreater, jpiLessOrEqual,
                       jpiGreaterOrEqual} then
        (case content of
           content_args larg rarg \<Rightarrow>
             executePredicate T cxt (JsonPathItem type content next) larg (Some rarg) jb True
               (executeComparison h)
         | _ \<Rightarrow> Inl malformed_item)
      else if type = jpiStartsWith then
        (case content of
           content_args larg rarg \<Rightarrow>
             executePredicate T cxt (JsonPathItem type content next) larg (Some rarg) jb False
               executeStartsWith
         | _ \<Rightarrow> Inl malformed_item)
      else if type = jpiLikeRegex then
        (case content of
           content_like_regex larg pattern flags \<Rightarrow>
             executePredicate T cxt (JsonPathItem type content next) larg None jb False
               (executeLikeRegex h)
         | _ \<Rightarrow> Inl malformed_item)
      else if type = jpiExists then
        (case content of
           content_arg larg \<Rightarrow> executeBoolItem_exists T cxt larg jb
         | _ \<Rightarrow> Inl malformed_item)
      else Inl (elog ''invalid boolean jsonpath item type: %d''))"

text \<open>
  Execute nested (filters etc.) boolean expression pushing current SQL/JSON item onto the
  stack.
\<close>

definition executeNestedBoolItem ::
  "walker \<Rightarrow> Host \<Rightarrow> JsonPathExecContext \<Rightarrow> JsonPathItem \<Rightarrow> JsonbValue
     \<Rightarrow> error + JsonPathBool \<times> JsonPathExecContext" where
  "executeNestedBoolItem T h cxt jsp jb =
     (let prev = current cxt in
      case executeBoolItem T h (cxt\<lparr>current := jb\<rparr>) jsp jb False of
        Inl e \<Rightarrow> Inl e
      | Inr (res, cxt') \<Rightarrow> Inr (res, cxt'\<lparr>current := prev\<rparr>))"

text \<open>
  Convert boolean execution status \<open>res\<close> to a boolean JSON item and execute next
  jsonpath.
\<close>

definition appendBoolResult ::
  "walker \<Rightarrow> JsonPathExecContext \<Rightarrow> JsonPathItem \<Rightarrow> JsonValueList option \<Rightarrow> JsonPathBool
     \<Rightarrow> exec_result" where
  "appendBoolResult T cxt jsp found res =
     (if jsp_next jsp = None \<and> found = None then Inr (jperOk, cxt, found)
      else
        executeNextItem T cxt (Some jsp) (jsp_next jsp)
          (if res = jpbUnknown then JsonbNull else JsonbBool (res = jpbTrue))
          found True)"

section \<open>Arithmetic\<close>

text \<open>
  The test \<^verbatim>\<open>JsonValueListLength(&seq) != 1 || !(val = getScalar(JsonValueListHead(&seq),
  jbvNumeric))\<close> of the arithmetic operators: the numeric of a sequence that is one numeric
  item, and \<open>None\<close> where the test succeeds.
\<close>

definition single_numeric :: "JsonValueList \<Rightarrow> Numeric option" where
  "single_numeric seq =
     (if JsonValueListLength seq \<noteq> 1 then None
      else
        (case JsonValueListHead seq of
           Some head \<Rightarrow>
             (case getScalar head jbvNumeric of
                Some (JsonbNumeric numeric) \<Rightarrow> Some numeric
              | _ \<Rightarrow> None)
         | None \<Rightarrow> None))"

text \<open>
  A \<^verbatim>\<open>BinaryArithmFunc\<close> of the host, such as \<^verbatim>\<open>numeric_add_opt_error\<close>: the result, or the
  error that it raises when its last argument is \<^verbatim>\<open>NULL\<close> and flags otherwise.
\<close>

type_synonym BinaryArithmFunc = "Numeric \<Rightarrow> Numeric \<Rightarrow> error + Numeric"

text \<open>
  Execute binary arithmetic expression on singleton numeric operands.  Array operands are
  automatically unwrapped in lax mode.
\<close>

definition executeBinaryArithmExpr ::
  "walker \<Rightarrow> JsonPathExecContext \<Rightarrow> JsonPathItem \<Rightarrow> JsonbValue \<Rightarrow> BinaryArithmFunc
     \<Rightarrow> JsonValueList option \<Rightarrow> exec_result" where
  "executeBinaryArithmExpr T cxt jsp jb func found =
     (case jsp_content jsp of
        content_args larg rarg \<Rightarrow>
          (case executeItemOptUnwrapResult T cxt larg jb True (Some JsonValueListInit) of
             Inl e \<Rightarrow> Inl e
           | Inr (jper, cxt1, lseq) \<Rightarrow>
               if jperIsError jper then Inr (jper, cxt1, found)
               else
                 (case executeItemOptUnwrapResult T cxt1 rarg jb True
                         (Some JsonValueListInit) of
                    Inl e \<Rightarrow> Inl e
                  | Inr (jper', cxt2, rseq) \<Rightarrow>
                      if jperIsError jper' then Inr (jper', cxt2, found)
                      else
                        (case single_numeric (local_list lseq) of
                           None \<Rightarrow>
                             RETURN_ERROR cxt2 found
                               (ereport ERRCODE_SINGLETON_SQL_JSON_ITEM_REQUIRED
                                  ''left operand of jsonpath operator %s is not a single numeric value'')
                         | Some lval \<Rightarrow>
                             (case single_numeric (local_list rseq) of
                                None \<Rightarrow>
                                  RETURN_ERROR cxt2 found
                                    (ereport ERRCODE_SINGLETON_SQL_JSON_ITEM_REQUIRED
                                       ''right operand of jsonpath operator %s is not a single numeric value'')
                              | Some rval \<Rightarrow>
                                  (case func lval rval of
                                     Inl e \<Rightarrow>
                                       if jspThrowErrors cxt2 then Inl e
                                       else Inr (jperError, cxt2, found)
                                   | Inr res \<Rightarrow>
                                       if jsp_next jsp = None \<and> found = None
                                       then Inr (jperOk, cxt2, found)
                                       else
                                         executeNextItem T cxt2 (Some jsp) (jsp_next jsp)
                                           (JsonbNumeric res) found False)))))
      | _ \<Rightarrow> Inl malformed_item)"

text \<open>
  The loop of \<^verbatim>\<open>executeUnaryArithmExpr\<close> over the operand's sequence; \<open>jper\<close> is the
  status so far.  \<open>func\<close> is \<open>None\<close> for the unary plus, whose \<^verbatim>\<open>func\<close> is \<^verbatim>\<open>NULL\<close>.
\<close>

fun executeUnaryArithmExpr_loop ::
  "walker \<Rightarrow> JsonPathExecContext \<Rightarrow> JsonPathItem \<Rightarrow> (Numeric \<Rightarrow> Numeric) option
     \<Rightarrow> JsonbValue list \<Rightarrow> JsonValueList option \<Rightarrow> JsonPathExecResult \<Rightarrow> exec_result" where
  "executeUnaryArithmExpr_loop T cxt jsp func [] found jper = Inr (jper, cxt, found)"
| "executeUnaryArithmExpr_loop T cxt jsp func (val # vals) found jper =
     (let hasNext = jspHasNext jsp in
      case getScalar val jbvNumeric of
        Some (JsonbNumeric numeric) \<Rightarrow>
          if found = None \<and> \<not> hasNext then Inr (jperOk, cxt, found)
          else
            (case executeNextItem T cxt (Some jsp) (jsp_next jsp)
                    (JsonbNumeric (case func of Some f \<Rightarrow> f numeric | None \<Rightarrow> numeric))
                    found False of
               Inl e \<Rightarrow> Inl e
             | Inr (jper2, cxt', found') \<Rightarrow>
                 if jperIsError jper2 then Inr (jper2, cxt', found')
                 else if jper2 = jperOk then
                   (if found = None then Inr (jperOk, cxt', found')
                    else executeUnaryArithmExpr_loop T cxt' jsp func vals found' jperOk)
                 else executeUnaryArithmExpr_loop T cxt' jsp func vals found' jper)
      | _ \<Rightarrow>
          if found = None \<and> \<not> hasNext
          then executeUnaryArithmExpr_loop T cxt jsp func vals found jper
          else
            RETURN_ERROR cxt found
              (ereport ERRCODE_SQL_JSON_NUMBER_NOT_FOUND
                 ''operand of unary jsonpath operator %s is not a numeric value''))"

text \<open>
  Execute unary arithmetic expression for each numeric item in its operand's sequence.
  Array operand is automatically unwrapped in lax mode.
\<close>

definition executeUnaryArithmExpr ::
  "walker \<Rightarrow> JsonPathExecContext \<Rightarrow> JsonPathItem \<Rightarrow> JsonbValue
     \<Rightarrow> (Numeric \<Rightarrow> Numeric) option \<Rightarrow> JsonValueList option \<Rightarrow> exec_result" where
  "executeUnaryArithmExpr T cxt jsp jb func found =
     (case jsp_content jsp of
        content_arg elem \<Rightarrow>
          (case executeItemOptUnwrapResult T cxt elem jb True (Some JsonValueListInit) of
             Inl e \<Rightarrow> Inl e
           | Inr (jper, cxt1, seq) \<Rightarrow>
               if jperIsError jper then Inr (jper, cxt1, found)
               else
                 executeUnaryArithmExpr_loop T cxt1 jsp func
                   (JsonValueListGetList (local_list seq)) found jperNotFound)
      | _ \<Rightarrow> Inl malformed_item)"

section \<open>The method .keyvalue()\<close>

text \<open>
  The loop of \<^verbatim>\<open>executeKeyValueMethod\<close>.  The iterator hands out the tokens
  \<^verbatim>\<open>WJB_KEY\<close> and \<^verbatim>\<open>WJB_VALUE\<close> once for each pair of the object, in the stored order, and
  the loop skips every other token; so the loop runs over the pairs.  \<open>idval\<close> is the
  numeric item that was built from the id before the loop.
\<close>

fun executeKeyValueMethod_loop ::
  "walker \<Rightarrow> Host \<Rightarrow> JsonPathExecContext \<Rightarrow> JsonPathItem \<Rightarrow> JsonbValue
     \<Rightarrow> (string \<times> JsonbValue) list \<Rightarrow> JsonValueList option \<Rightarrow> JsonPathExecResult
     \<Rightarrow> exec_result" where
  "executeKeyValueMethod_loop T h cxt jsp idval [] found res = Inr (res, cxt, found)"
| "executeKeyValueMethod_loop T h cxt jsp idval ((key, val) # pairs) found res =
     (if \<not> jspHasNext jsp \<and> found = None then Inr (jperOk, cxt, found)
      else
        let keyval = JsonbObject
                       [(''key'', JsonbString key), (''value'', val), (''id'', idval)];
            jsonb = JsonbValueToJsonb h keyval;
            obj = JsonbInitBinary jsonb;
            (baseObject', cxt1) = setBaseObject cxt obj (lastGeneratedObjectId cxt);
            cxt2 = cxt1\<lparr>lastGeneratedObjectId := lastGeneratedObjectId cxt + 1\<rparr>
        in
          case executeNextItem T cxt2 (Some jsp) (jsp_next jsp) obj found True of
            Inl e \<Rightarrow> Inl e
          | Inr (res', cxt3, found') \<Rightarrow>
              let cxt4 = cxt3\<lparr>baseObject := baseObject'\<rparr> in
              if jperIsError res' then Inr (res', cxt4, found')
              else if res' = jperOk \<and> found = None then Inr (res', cxt4, found')
              else executeKeyValueMethod_loop T h cxt4 jsp idval pairs found' res')"

text \<open>
  The id of the pairs of an object: the offset of its container in its base object's
  jsonb, plus 10000000000 times the id of the base object.  The subtraction of the
  pointers and the arithmetic of \<^verbatim>\<open>int64\<close> are those of 64-bit words.
\<close>

definition executeKeyValueMethod_id :: "JsonPathExecContext \<Rightarrow> JsonbValue \<Rightarrow> int64" where
  "executeKeyValueMethod_id cxt jb =
     (case jb of
        JsonbBinary jbc \<Rightarrow> jbc_addr jbc - bo_jbc (baseObject cxt)
      | _ \<Rightarrow> 0)
     + scast (bo_id (baseObject cxt)) * 10000000000"

text \<open>
  Implementation of the .keyvalue() method.

  .keyvalue() method returns a sequence of object's key-value pairs in the following
  format: '{ "key": key, "value": value, "id": id }'.

  "id" field is an object identifier which is constructed from the two parts: base object
  id and its binary offset in base object's jsonb:
  id = 10000000000 * base_object_id + obj_offset_in_base_object
\<close>

definition executeKeyValueMethod ::
  "walker \<Rightarrow> Host \<Rightarrow> JsonPathExecContext \<Rightarrow> JsonPathItem \<Rightarrow> JsonbValue
     \<Rightarrow> JsonValueList option \<Rightarrow> exec_result" where
  "executeKeyValueMethod T h cxt jsp jb found =
     (case (if JsonbType jb \<noteq> jbvObject then None else binary_data jb) of
        None \<Rightarrow>
          RETURN_ERROR cxt found
            (ereport ERRCODE_SQL_JSON_OBJECT_NOT_FOUND
               ''jsonpath item method .%s() can only be applied to an object'')
      | Some jbc \<Rightarrow>
          if JsonContainerSize jbc = 0 then Inr (jperNotFound, cxt, found)
          else
            (case jbc_data jbc of
               JBObject pairs \<Rightarrow>
                 executeKeyValueMethod_loop T h cxt jsp
                   (JsonbNumeric (int64_to_numeric (executeKeyValueMethod_id cxt jb)))
                   pairs found jperNotFound
             | _ \<Rightarrow> Inr (jperNotFound, cxt, found)))"

section \<open>The walker\<close>

text \<open>
  The callback \<^verbatim>\<open>getVar\<close> applied to the variables: for a name, the value of the variable,
  its base object and the id of its base object, or \<open>None\<close> for the result \<^verbatim>\<open>NULL\<close>.
  The variables themselves may be \<^verbatim>\<open>NULL\<close>.
\<close>

type_synonym JsonPathGetVarCallback =
  "string \<Rightarrow> (JsonbValue \<times> JsonbValue \<times> int32) option"

text \<open>
  Get the value of variable passed to jsonpath executor.  Where the id of the base object
  is not positive the buffer for the value is left as it is; it is fresh, and as the
  callbacks of this file hand out a positive id with every value, what the model has in it
  (a null) is never used.
\<close>

definition getJsonPathVariable ::
  "JsonPathGetVarCallback option \<Rightarrow> JsonPathExecContext \<Rightarrow> JsonPathItem
     \<Rightarrow> error + JsonbValue \<times> JsonPathExecContext" where
  "getJsonPathVariable vars cxt variable =
     (case jsp_content variable of
        content_value (JsonbString varName) \<Rightarrow>
          (case (case vars of None \<Rightarrow> None | Some getVar \<Rightarrow> getVar varName) of
             None \<Rightarrow>
               Inl (ereport ERRCODE_UNDEFINED_OBJECT
                      ''could not find jsonpath variable \"%s\"'')
           | Some (v, baseObject', baseObjectId) \<Rightarrow>
               if 0 <s baseObjectId
               then Inr (v, snd (setBaseObject cxt baseObject' baseObjectId))
               else Inr (JsonbNull, cxt))
      | _ \<Rightarrow> Inl malformed_item)"

text \<open>
  Convert jsonpath's scalar or variable node to actual jsonb value.  \<^verbatim>\<open>jspGetBool\<close>,
  \<^verbatim>\<open>jspGetNumeric\<close> and \<^verbatim>\<open>jspGetString\<close> read the literal that the item stores.
\<close>

definition getJsonPathItem ::
  "JsonPathGetVarCallback option \<Rightarrow> JsonPathExecContext \<Rightarrow> JsonPathItem
     \<Rightarrow> error + JsonbValue \<times> JsonPathExecContext" where
  "getJsonPathItem vars cxt item =
     (if jsp_type item = jpiNull then Inr (JsonbNull, cxt)
      else if jsp_type item = jpiBool then
        (case jsp_content item of
           content_value (JsonbBool b) \<Rightarrow> Inr (JsonbBool b, cxt)
         | _ \<Rightarrow> Inl malformed_item)
      else if jsp_type item = jpiNumeric then
        (case jsp_content item of
           content_value (JsonbNumeric n) \<Rightarrow> Inr (JsonbNumeric n, cxt)
         | _ \<Rightarrow> Inl malformed_item)
      else if jsp_type item = jpiString then
        (case jsp_content item of
           content_value (JsonbString s) \<Rightarrow> Inr (JsonbString s, cxt)
         | _ \<Rightarrow> Inl malformed_item)
      else if jsp_type item = jpiVariable then getJsonPathVariable vars cxt item
      else Inl (elog ''unexpected jsonpath item type''))"

text \<open>
  \<^verbatim>\<open>findJsonbValueFromContainer(container, JB_FOBJECT, key)\<close>: the value that an object
  stores under a key.
\<close>

definition findJsonbValueFromContainer :: "JsonbContainer \<Rightarrow> string \<Rightarrow> JsonbValue option" where
  "findJsonbValueFromContainer jbc key =
     (case jbc_data jbc of JBObject pairs \<Rightarrow> map_of pairs key | _ \<Rightarrow> None)"

text \<open>
  Main jsonpath executor function: walks on jsonpath structure, finds relevant parts of
  jsonb and evaluates expressions over them.  When \<open>unwrap\<close> is true current SQL/JSON
  item is unwrapped if it is an array.

  These are the cases of its switch for the literals and the variables, the boolean items,
  the arithmetic, \<open>[*]\<close>, \<open>.*\<close>, the member accessor, \<open>@\<close>, \<open>$\<close>, the filter and
  \<open>.keyvalue()\<close>.  \<open>T\<close> is the function itself, for the calls it makes; \<open>other\<close> stands
  for the cases of the remaining item types.
\<close>

definition executeItemOptUnwrapTarget_switch ::
  "walker \<Rightarrow> (walker \<Rightarrow> walker) \<Rightarrow> Host \<Rightarrow> JsonPathGetVarCallback option \<Rightarrow> walker" where
  "executeItemOptUnwrapTarget_switch T other h vars cxt jsp jb found unwrap =
     (let type = jsp_type jsp in
      if type \<in> {jpiNull, jpiBool, jpiNumeric, jpiString, jpiVariable} then
        (let hasNext = jspHasNext jsp in
         if \<not> hasNext \<and> found = None \<and> type \<noteq> jpiVariable then Inr (jperOk, cxt, found)
         else
           (let baseObject' = baseObject cxt in
            case getJsonPathItem vars cxt jsp of
              Inl e \<Rightarrow> Inl e
            | Inr (v, cxt1) \<Rightarrow>
                (case executeNextItem T cxt1 (Some jsp) (jsp_next jsp) v found hasNext of
                   Inl e \<Rightarrow> Inl e
                 | Inr (res, cxt2, found') \<Rightarrow>
                     Inr (res, cxt2\<lparr>baseObject := baseObject'\<rparr>, found'))))
      else if type \<in> {jpiAnd, jpiOr, jpiNot, jpiIsUnknown, jpiEqual, jpiNotEqual, jpiLess,
                       jpiGreater, jpiLessOrEqual, jpiGreaterOrEqual, jpiExists,
                       jpiStartsWith, jpiLikeRegex} then
        (case executeBoolItem T h cxt jsp jb True of
           Inl e \<Rightarrow> Inl e
         | Inr (st, cxt1) \<Rightarrow> appendBoolResult T cxt1 jsp found st)
      else if type = jpiAdd then
        executeBinaryArithmExpr T cxt jsp jb (numeric_add_opt_error h) found
      else if type = jpiSub then
        executeBinaryArithmExpr T cxt jsp jb (numeric_sub_opt_error h) found
      else if type = jpiMul then
        executeBinaryArithmExpr T cxt jsp jb (numeric_mul_opt_error h) found
      else if type = jpiDiv then
        executeBinaryArithmExpr T cxt jsp jb (numeric_div_opt_error h) found
      else if type = jpiMod then
        executeBinaryArithmExpr T cxt jsp jb (numeric_mod_opt_error h) found
      else if type = jpiPlus then executeUnaryArithmExpr T cxt jsp jb None found
      else if type = jpiMinus then
        executeUnaryArithmExpr T cxt jsp jb (Some (numeric_uminus h)) found
      else if type = jpiAnyArray then
        (if JsonbType jb = jbvArray then
           executeItemUnwrapTargetArray T cxt (jsp_next jsp) jb found (jspAutoUnwrap cxt)
         else if jspAutoWrap cxt then executeNextItem T cxt (Some jsp) None jb found True
         else if \<not> jspIgnoreStructuralErrors cxt then
           RETURN_ERROR cxt found
             (ereport ERRCODE_SQL_JSON_ARRAY_NOT_FOUND
                ''jsonpath wildcard array accessor can only be applied to an array'')
         else Inr (jperNotFound, cxt, found))
      else if type = jpiAnyKey then
        (if JsonbType jb = jbvObject then
           (case jb of
              JsonbBinary jbc \<Rightarrow>
                executeAnyItem T cxt (jsp_next jsp) jbc found 1 1 1 False (jspAutoUnwrap cxt)
            | _ \<Rightarrow> Inl (elog ''invalid jsonb object type: %d''))
         else if unwrap \<and> JsonbType jb = jbvArray then
           executeItemUnwrapTargetArray T cxt (Some jsp) jb found False
         else if \<not> jspIgnoreStructuralErrors cxt then
           RETURN_ERROR cxt found
             (ereport ERRCODE_SQL_JSON_OBJECT_NOT_FOUND
                ''jsonpath wildcard member accessor can only be applied to an object'')
         else Inr (jperNotFound, cxt, found))
      else if type = jpiKey then
        (if JsonbType jb = jbvObject then
           (case (jsp_content jsp, binary_data jb) of
              (content_value (JsonbString key), Some jbc) \<Rightarrow>
                (case findJsonbValueFromContainer jbc key of
                   Some v \<Rightarrow> executeNextItem T cxt (Some jsp) None v found False
                 | None \<Rightarrow>
                     if \<not> jspIgnoreStructuralErrors cxt then
                       (if \<not> jspThrowErrors cxt then Inr (jperError, cxt, found)
                        else Inl (ereport ERRCODE_SQL_JSON_MEMBER_NOT_FOUND
                                    ''JSON object does not contain key \"%s\"''))
                     else Inr (jperNotFound, cxt, found))
            | _ \<Rightarrow> Inl malformed_item)
         else if unwrap \<and> JsonbType jb = jbvArray then
           executeItemUnwrapTargetArray T cxt (Some jsp) jb found False
         else if \<not> jspIgnoreStructuralErrors cxt then
           RETURN_ERROR cxt found
             (ereport ERRCODE_SQL_JSON_MEMBER_NOT_FOUND
                ''jsonpath member accessor can only be applied to an object'')
         else Inr (jperNotFound, cxt, found))
      else if type = jpiCurrent then
        executeNextItem T cxt (Some jsp) None (current cxt) found True
      else if type = jpiRoot then
        (let jb' = root cxt;
             (baseObject', cxt1) = setBaseObject cxt jb' 0
         in
           case executeNextItem T cxt1 (Some jsp) None jb' found True of
             Inl e \<Rightarrow> Inl e
           | Inr (res, cxt2, found') \<Rightarrow>
               Inr (res, cxt2\<lparr>baseObject := baseObject'\<rparr>, found'))
      else if type = jpiFilter then
        (if unwrap \<and> JsonbType jb = jbvArray then
           executeItemUnwrapTargetArray T cxt (Some jsp) jb found False
         else
           (case jsp_content jsp of
              content_arg elem \<Rightarrow>
                (case executeNestedBoolItem T h cxt elem jb of
                   Inl e \<Rightarrow> Inl e
                 | Inr (st, cxt1) \<Rightarrow>
                     if st \<noteq> jpbTrue then Inr (jperNotFound, cxt1, found)
                     else executeNextItem T cxt1 (Some jsp) None jb found True)
            | _ \<Rightarrow> Inl malformed_item))
      else if type = jpiKeyValue then
        (if unwrap \<and> JsonbType jb = jbvArray then
           executeItemUnwrapTargetArray T cxt (Some jsp) jb found False
         else executeKeyValueMethod T h cxt jsp jb found)
      else other T cxt jsp jb found unwrap)"

text \<open>
  The function calls itself through the calls above; each call passes
  \<^verbatim>\<open>check_stack_depth()\<close>, which raises once the stack is too deep.  \<open>depth\<close> is the number
  of nested calls that the stack still has room for.
\<close>

primrec executeItemOptUnwrapTarget ::
  "(walker \<Rightarrow> walker) \<Rightarrow> Host \<Rightarrow> JsonPathGetVarCallback option \<Rightarrow> nat \<Rightarrow> walker" where
  "executeItemOptUnwrapTarget other h vars 0 =
     (\<lambda>cxt jsp jb found unwrap.
        Inl (ereport ERRCODE_STATEMENT_TOO_COMPLEX ''stack depth limit exceeded''))"
| "executeItemOptUnwrapTarget other h vars (Suc depth) =
     executeItemOptUnwrapTarget_switch (executeItemOptUnwrapTarget other h vars depth)
       other h vars"

text \<open>The default of the switch, for a host of examples that has no other item types.\<close>

definition unrecognized_item :: "walker \<Rightarrow> walker" where
  "unrecognized_item T cxt jsp jb found unwrap =
     Inl (elog ''unrecognized jsonpath item type: %d'')"

section \<open>JSON\_TABLE\<close>

text \<open>
  A plan is a path scan with an optional nested child plan, or the join of two sibling
  plans.
\<close>

datatype JsonTablePlan =
    JsonTablePathScan (scan_path: JsonPath) (scan_errorOnError: bool)
      (scan_child: "JsonTablePlan option")
  | JsonTableSiblingJoin (join_lplan: JsonTablePlan) (join_rplan: JsonTablePlan)

text \<open>
  The state of a plan.  For a path scan: the jsonpath and the flag of its plan, the list
  and the iterator of the jsonpath result values, the currently selected row, the counter
  for ORDINAL columns and the state of the nested plan.  The two fields of the current
  row, \<^verbatim>\<open>value\<close> and \<^verbatim>\<open>isnull\<close>, are always set together: \<open>None\<close> is the null pointer
  with \<^verbatim>\<open>isnull = true\<close>, \<open>Some\<close> a row with \<^verbatim>\<open>isnull = false\<close>.  For a sibling join:
  the states of the left and of the right sibling.  The link to the parent is the argument
  of the one function that follows it; the memory contexts are left out.
\<close>

datatype JsonTablePlanState =
    JsonTablePathScanState (ps_path: JsonPath) (ps_errorOnError: bool)
      (ps_found: JsonValueList) (ps_iter: JsonValueListIterator)
      (ps_current: "JsonbContainer option") (ps_ordinal: int32)
      (ps_nested: "JsonTablePlanState option")
  | JsonTableSiblingJoinState (ps_left: JsonTablePlanState) (ps_right: JsonTablePlanState)

text \<open>
  Initialize information for evaluating jsonpath in the given JsonTablePlan and,
  recursively, in any child plans.  The state is allocated with zeros; no row pattern is
  evaluated yet.
\<close>

fun JsonTableInitPlan :: "JsonTablePlan \<Rightarrow> JsonTablePlanState" where
  "JsonTableInitPlan (JsonTablePathScan path errorOnError child) =
     JsonTablePathScanState path errorOnError JsonValueListInit
       \<lparr>it_value = None, it_list = [], it_next = []\<rparr> None 0
       (map_option JsonTableInitPlan child)"
| "JsonTableInitPlan (JsonTableSiblingJoin lplan rplan) =
     JsonTableSiblingJoinState (JsonTableInitPlan lplan) (JsonTableInitPlan rplan)"

text \<open>
  \<^verbatim>\<open>CountJsonPathVars\<close>: the variables of JSON\_TABLE are a list, which is counted.
\<close>

definition CountJsonPathVars :: "'a list \<Rightarrow> error + int32" where
  "CountJsonPathVars vars = Inr (of_nat (length vars))"

text \<open>
  Evaluate a JsonTablePlan's jsonpath to get a new row pattern from the given context
  item.  It is called for the state of a path scan.
\<close>

fun JsonTableResetRowPattern ::
  "walker \<Rightarrow> 'a list \<Rightarrow> JsonTablePlanState \<Rightarrow> JsonbContainer \<Rightarrow> error + JsonTablePlanState"
where
  "JsonTableResetRowPattern T args
     (JsonTablePathScanState path errorOnError found iter cur ordinal nested) item =
     (case executeJsonPath T path args CountJsonPathVars item errorOnError
             (Some (JsonValueListClear found)) True of
        Inl e \<Rightarrow> Inl e
      | Inr (res, found1) \<Rightarrow>
          let found2 = (if jperIsError res then JsonValueListClear (local_list found1)
                        else local_list found1)
          in Inr (JsonTablePathScanState path errorOnError found2
                    (JsonValueListInitIterator found2) None 0 nested))"
| "JsonTableResetRowPattern T args (JsonTableSiblingJoinState left right) item =
     Inl (elog ''unexpected node type'')"

text \<open>
  Re-evaluate the row pattern of a nested plan using the new parent row pattern;
  \<open>parent_current\<close> is the current row of the parent.
\<close>

fun JsonTableResetNestedPlan ::
  "walker \<Rightarrow> 'a list \<Rightarrow> JsonbContainer option \<Rightarrow> JsonTablePlanState
     \<Rightarrow> error + JsonTablePlanState" where
  "JsonTableResetNestedPlan T args parent_current
     (JsonTablePathScanState path errorOnError found iter cur ordinal nested) =
     (case parent_current of
        Some item \<Rightarrow>
          JsonTableResetRowPattern T args
            (JsonTablePathScanState path errorOnError found iter cur ordinal nested) item
      | None \<Rightarrow>
          Inr (JsonTablePathScanState path errorOnError found iter cur ordinal nested))"
| "JsonTableResetNestedPlan T args parent_current (JsonTableSiblingJoinState left right) =
     (case JsonTableResetNestedPlan T args parent_current left of
        Inl e \<Rightarrow> Inl e
      | Inr left' \<Rightarrow>
          (case JsonTableResetNestedPlan T args parent_current right of
             Inl e \<Rightarrow> Inl e
           | Inr right' \<Rightarrow> Inr (JsonTableSiblingJoinState left' right')))"

text \<open>The number of nodes of a plan state; a reset does not change it.\<close>

fun plan_nodes :: "JsonTablePlanState \<Rightarrow> nat" where
  "plan_nodes (JsonTablePathScanState path errorOnError found iter cur ordinal nested) =
     Suc (case nested of None \<Rightarrow> 0 | Some n \<Rightarrow> plan_nodes n)"
| "plan_nodes (JsonTableSiblingJoinState left right) =
     Suc (plan_nodes left + plan_nodes right)"

lemma plan_nodes_ResetNestedPlan:
  "JsonTableResetNestedPlan T args parent_current planstate = Inr planstate' \<Longrightarrow>
   plan_nodes planstate' = plan_nodes planstate"
proof (induction planstate arbitrary: planstate')
  case (JsonTablePathScanState path errorOnError found iter cur ordinal nested)
  then show ?case
    by (auto simp: Let_def split: option.splits sum.splits)
next
  case (JsonTableSiblingJoinState left right)
  then show ?case
    by (auto split: sum.splits)
qed

text \<open>
  Fetch next row from a JsonTablePlan.  Returns false if the plan has run out of rows,
  true otherwise.  The result is returned together with the state.

  \<^verbatim>\<open>JsonTablePlanScanNextRow\<close>: fetch next row from a JsonTablePlan's path evaluation
  result and from any child nested path(s).  \<^verbatim>\<open>JsonTablePlanJoinNextRow\<close>: fetch the next
  row from a JsonTableSiblingJoin; this is essentially a UNION between the rows from left
  and right siblings.  Both take the fields of the state that they are called for.
\<close>

function JsonTablePlanNextRow ::
  "walker \<Rightarrow> Host \<Rightarrow> 'a list \<Rightarrow> JsonTablePlanState \<Rightarrow> error + bool \<times> JsonTablePlanState"
and JsonTablePlanScanNextRow ::
  "walker \<Rightarrow> Host \<Rightarrow> 'a list \<Rightarrow> JsonPath \<Rightarrow> bool \<Rightarrow> JsonValueList \<Rightarrow> JsonValueListIterator
     \<Rightarrow> JsonbContainer option \<Rightarrow> int32 \<Rightarrow> JsonTablePlanState option
     \<Rightarrow> error + bool \<times> JsonTablePlanState"
and JsonTablePlanJoinNextRow ::
  "walker \<Rightarrow> Host \<Rightarrow> 'a list \<Rightarrow> JsonTablePlanState \<Rightarrow> JsonTablePlanState
     \<Rightarrow> error + bool \<times> JsonTablePlanState"
where
  "JsonTablePlanNextRow T h args
     (JsonTablePathScanState path errorOnError found iter cur ordinal nested) =
     JsonTablePlanScanNextRow T h args path errorOnError found iter cur ordinal nested"
| "JsonTablePlanNextRow T h args (JsonTableSiblingJoinState left right) =
     JsonTablePlanJoinNextRow T h args left right"
| "JsonTablePlanScanNextRow T h args path errorOnError found iter cur ordinal nested =
     (case (if cur \<noteq> None then
              (case nested of
                 Some n \<Rightarrow>
                   (case JsonTablePlanNextRow T h args n of
                      Inl e \<Rightarrow> Inl e
                    | Inr (has_row, n') \<Rightarrow> Inr (has_row, Some n'))
               | None \<Rightarrow> Inr (False, nested))
            else Inr (False, nested)) of
        Inl e \<Rightarrow> Inl e
      | Inr (has_row, nested1) \<Rightarrow>
          if has_row
          then Inr (True,
                    JsonTablePathScanState path errorOnError found iter cur ordinal nested1)
          else
            (case JsonValueListNext iter of
               (None, iter') \<Rightarrow>
                 Inr (False,
                      JsonTablePathScanState path errorOnError found iter' None ordinal
                        nested1)
             | (Some jbv, iter') \<Rightarrow>
                 (let cur' = Some (JsonbValueToJsonb h jbv);
                      ordinal' = ordinal + 1
                  in
                    case nested1 of
                      None \<Rightarrow>
                        Inr (True,
                             JsonTablePathScanState path errorOnError found iter' cur'
                               ordinal' None)
                    | Some n \<Rightarrow>
                        (case JsonTableResetNestedPlan T args cur' n of
                           Inl e \<Rightarrow> Inl e
                         | Inr n' \<Rightarrow>
                             (case JsonTablePlanNextRow T h args n' of
                                Inl e \<Rightarrow> Inl e
                              | Inr (has_row', n'') \<Rightarrow>
                                  Inr (True,
                                       JsonTablePathScanState path errorOnError found
                                         iter' cur' ordinal' (Some n'')))))))"
| "JsonTablePlanJoinNextRow T h args left right =
     (case JsonTablePlanNextRow T h args left of
        Inl e \<Rightarrow> Inl e
      | Inr (has_row, left') \<Rightarrow>
          if has_row then Inr (True, JsonTableSiblingJoinState left' right)
          else
            (case JsonTablePlanNextRow T h args right of
               Inl e \<Rightarrow> Inl e
             | Inr (has_row', right') \<Rightarrow>
                 Inr (has_row', JsonTableSiblingJoinState left' right')))"
  by pat_completeness auto

lemma plan_nodes_NextRow_dom:
  "JsonTablePlanNextRow_JsonTablePlanScanNextRow_JsonTablePlanJoinNextRow_dom
     (Inl (T, h, args, planstate)) \<Longrightarrow>
   JsonTablePlanNextRow T h args planstate = Inr (b, planstate') \<Longrightarrow>
   plan_nodes planstate' = plan_nodes planstate"
  "JsonTablePlanNextRow_JsonTablePlanScanNextRow_JsonTablePlanJoinNextRow_dom
     (Inr (Inl (T, h, args, path, errorOnError, found, iter, cur, ordinal, nested))) \<Longrightarrow>
   JsonTablePlanScanNextRow T h args path errorOnError found iter cur ordinal nested =
     Inr (b, planstate') \<Longrightarrow>
   plan_nodes planstate' = Suc (case nested of None \<Rightarrow> 0 | Some n \<Rightarrow> plan_nodes n)"
  "JsonTablePlanNextRow_JsonTablePlanScanNextRow_JsonTablePlanJoinNextRow_dom
     (Inr (Inr (T, h, args, left, right))) \<Longrightarrow>
   JsonTablePlanJoinNextRow T h args left right = Inr (b, planstate') \<Longrightarrow>
   plan_nodes planstate' = Suc (plan_nodes left + plan_nodes right)"
proof (induct arbitrary: b planstate' and b planstate' and b planstate'
    rule: JsonTablePlanNextRow_JsonTablePlanScanNextRow_JsonTablePlanJoinNextRow.pinduct)
  case (1 T h args path errorOnError found iter cur ordinal nested)
  then show ?case
    by (simp add: JsonTablePlanNextRow.psimps)
next
  case (2 T h args left right)
  then show ?case
    by (simp add: JsonTablePlanNextRow.psimps)
next
  case (3 T h args path errorOnError found iter cur ordinal nested)
  let ?nodes = "\<lambda>nested. case nested of None \<Rightarrow> 0 | Some n \<Rightarrow> plan_nodes n"
  let ?first = "if cur \<noteq> None
      then case nested of
             None \<Rightarrow> Inr (False, nested)
           | Some n \<Rightarrow>
               (case JsonTablePlanNextRow T h args n of
                  Inl e \<Rightarrow> Inl e
                | Inr (has_row, n') \<Rightarrow> Inr (has_row, Some n'))
      else Inr (False, nested)"
  note eq = 3(4) [unfolded JsonTablePlanScanNextRow.psimps [OF 3(1)]]
  from eq obtain has_row nested1 where first: "?first = Inr (has_row, nested1)"
    by (cases ?first) auto
  have nodes: "?nodes nested1 = ?nodes nested"
  proof (cases "cur \<noteq> None \<and> nested \<noteq> None")
    case False
    with first show ?thesis
      by (auto split: if_splits option.splits)
  next
    case True
    then obtain n where c: "cur \<noteq> None" and n: "nested = Some n"
      by auto
    with first obtain n' where r: "JsonTablePlanNextRow T h args n = Inr (has_row, n')"
      and n1: "nested1 = Some n'"
      by (auto split: sum.splits prod.splits)
    have "plan_nodes n' = plan_nodes n"
      using c n r by (rule 3(2))
    with n n1 show ?thesis
      by simp
  qed
  show ?case
  proof (cases has_row)
    case True
    with eq first nodes show ?thesis by auto
  next
    case False
    obtain v iter' where nxt: "JsonValueListNext iter = (v, iter')"
      by (cases "JsonValueListNext iter")
    show ?thesis
    proof (cases v)
      case None
      with eq first False nxt nodes show ?thesis by auto
    next
      case (Some jbv)
      show ?thesis
      proof (cases nested1)
        case None
        with eq first False nxt Some nodes show ?thesis by (auto simp: Let_def)
      next
        case inner: (Some n)
        from eq first False nxt Some inner obtain n' has_row' n''
          where reset: "JsonTableResetNestedPlan T args (Some (JsonbValueToJsonb h jbv)) n =
              Inr n'"
            and row: "JsonTablePlanNextRow T h args n' = Inr (has_row', n'')"
            and res: "planstate' = JsonTablePathScanState path errorOnError found iter'
              (Some (JsonbValueToJsonb h jbv)) (ordinal + 1) (Some n'')"
          by (auto simp: Let_def split: sum.splits prod.splits)
        have "plan_nodes n'' = plan_nodes n'"
          using first False nxt [symmetric] Some inner reset row
          by (intro 3(3) [where b = "(has_row, nested1)" and x = has_row and y = nested1
                and xa = v and ya = iter' and ?x2.0 = jbv and ?x2a = n and ba = n'
                and bb = has_row']) simp_all
        moreover have "plan_nodes n' = plan_nodes n"
          using reset by (rule plan_nodes_ResetNestedPlan)
        ultimately show ?thesis
          using res nodes inner by simp
      qed
    qed
  qed
next
  case (4 T h args left right)
  note eq = 4(4) [unfolded JsonTablePlanJoinNextRow.psimps [OF 4(1)]]
  from eq obtain has_row left' where l: "JsonTablePlanNextRow T h args left =
      Inr (has_row, left')"
    by (cases "JsonTablePlanNextRow T h args left") auto
  have nl: "plan_nodes left' = plan_nodes left"
    using l by (rule 4(2))
  show ?case
  proof (cases has_row)
    case True
    with eq l nl show ?thesis by auto
  next
    case False
    from eq l False obtain has_row' right'
      where r: "JsonTablePlanNextRow T h args right = Inr (has_row', right')"
        and res: "planstate' = JsonTableSiblingJoinState left' right'"
      by (auto split: sum.splits prod.splits)
    have "plan_nodes right' = plan_nodes right"
      using l False r by (intro 4(3) [where b = "(has_row, left')"]) simp_all
    with res nl show ?thesis by simp
  qed
qed

termination JsonTablePlanNextRow
proof (relation "measure (\<lambda>x. case x of
          Inl (T, h, args, planstate) \<Rightarrow> 2 * plan_nodes planstate + 1
        | Inr (Inl (T, h, args, path, errorOnError, found, iter, cur, ordinal, nested)) \<Rightarrow>
            2 * (case nested of None \<Rightarrow> 0 | Some n \<Rightarrow> plan_nodes n) + 2
        | Inr (Inr (T, h, args, left, right)) \<Rightarrow>
            2 * (plan_nodes left + plan_nodes right) + 2)", goal_cases)
  case 1
  show ?case by simp
next
  case 2
  show ?case by simp
next
  case 3
  show ?case by simp
next
  case 4
  then show ?case by simp
next
  case (5 T h args path errorOnError found iter cur ordinal nested x xa y xb ya x2 xc xd x2a
      xe)
  have "plan_nodes xe = plan_nodes x2a"
    using 5 by (intro plan_nodes_ResetNestedPlan [of T args xc x2a xe]) simp
  moreover have "(case nested of None \<Rightarrow> 0 | Some n \<Rightarrow> plan_nodes n) =
      (case y of None \<Rightarrow> 0 | Some n \<Rightarrow> plan_nodes n)"
  proof (cases "cur \<noteq> None \<and> nested \<noteq> None")
    case False
    with 5 show ?thesis
      by (auto split: if_splits option.splits)
  next
    case True
    then obtain n where c: "cur \<noteq> None" and n: "nested = Some n"
      by auto
    with 5 obtain n' where r: "JsonTablePlanNextRow T h args n = Inr (xa, n')"
      and y: "y = Some n'"
      by (auto split: sum.splits prod.splits)
    have "JsonTablePlanNextRow_JsonTablePlanScanNextRow_JsonTablePlanJoinNextRow_dom
        (Inl (T, h, args, n))"
      using 5 c n by auto
    then have "plan_nodes n' = plan_nodes n"
      using r by (rule plan_nodes_NextRow_dom(1))
    with n y show ?thesis
      by simp
  qed
  ultimately show ?case
    using 5 by simp
next
  case 6
  show ?case by simp
next
  case 7
  show ?case by simp
qed

section \<open>A host for the examples\<close>

text \<open>
  A concrete host, used where a theorem is instantiated at a concrete input.  Every
  datetime is compared as the signed integer its datum holds.  The arithmetic is that of
  the finite decimals, brought to the larger of the two scales; division and remainder
  are defined for the scale 0 and truncate.
\<close>

definition sint_cmp :: "Datum \<Rightarrow> Datum \<Rightarrow> int32" where
  "sint_cmp a b = (if a = b then 0 else if a <s b then - 1 else 1)"

fun example_align :: "Numeric \<Rightarrow> Numeric \<Rightarrow> (int \<times> int \<times> nat) option" where
  "example_align (NumericFinite x s) (NumericFinite y t) =
     Some (x * 10 ^ (max s t - s), y * 10 ^ (max s t - t), max s t)"
| "example_align a b = None"

definition example_numeric_cmp :: "Numeric \<Rightarrow> Numeric \<Rightarrow> int32" where
  "example_numeric_cmp a b =
     (case example_align a b of
        Some (x, y, s) \<Rightarrow> if x < y then - 1 else if x = y then 0 else 1
      | None \<Rightarrow> 0)"

definition example_numeric_op ::
  "(int \<Rightarrow> int \<Rightarrow> int) \<Rightarrow> Numeric \<Rightarrow> Numeric \<Rightarrow> error + Numeric" where
  "example_numeric_op f a b =
     (case example_align a b of
        Some (x, y, s) \<Rightarrow> Inr (NumericFinite (f x y) s)
      | None \<Rightarrow> Inr NumericNaN)"

fun example_numeric_mul :: "Numeric \<Rightarrow> Numeric \<Rightarrow> error + Numeric" where
  "example_numeric_mul (NumericFinite x s) (NumericFinite y t) =
     Inr (NumericFinite (x * y) (s + t))"
| "example_numeric_mul a b = Inr NumericNaN"

definition example_numeric_div ::
  "(int \<Rightarrow> int \<Rightarrow> int) \<Rightarrow> Numeric \<Rightarrow> Numeric \<Rightarrow> error + Numeric" where
  "example_numeric_div f a b =
     (case (a, b) of
        (NumericFinite x 0, NumericFinite y 0) \<Rightarrow>
          if y = 0 then Inl (ereport ERRCODE_DIVISION_BY_ZERO ''division by zero'')
          else Inr (NumericFinite (f x y) 0)
      | _ \<Rightarrow> Inr NumericNaN)"

fun example_numeric_uminus :: "Numeric \<Rightarrow> Numeric" where
  "example_numeric_uminus (NumericFinite x s) = NumericFinite (- x) s"
| "example_numeric_uminus NumericPInf = NumericNInf"
| "example_numeric_uminus NumericNInf = NumericPInf"
| "example_numeric_uminus NumericNaN = NumericNaN"

text \<open>
  The serialiser of the example host keeps the members in the order given and puts every
  new jsonb at the address 4096.
\<close>

definition example_JsonbValueToJsonb :: "JsonbValue \<Rightarrow> JsonbContainer" where
  "example_JsonbValueToJsonb v =
     JsonbContainer 4096
       (case v of
          JsonbObject ps \<Rightarrow> JBObject ps
        | JsonbArray xs \<Rightarrow> JBArray xs
        | _ \<Rightarrow> JBScalar v)"

definition example_host :: Host where
  "example_host = \<lparr>
     utf8_or_ascii = True,
     pg_server_to_any = (\<lambda>s. None),
     numeric_cmp = example_numeric_cmp,
     date_cmp = sint_cmp,
     time_cmp = sint_cmp,
     timetz_cmp = sint_cmp,
     timestamp_cmp = sint_cmp,
     time_timetz = (\<lambda>a. a),
     date_cmp_timestamp_internal = sint_cmp,
     date_cmp_timestamptz_internal = sint_cmp,
     timestamp_cmp_timestamptz_internal = sint_cmp,
     jspConvertRegexFlags = (\<lambda>flags. flags),
     RE_compile_and_execute = (\<lambda>pattern s cflags. Inr (pattern = s)),
     JsonbValueToJsonb = example_JsonbValueToJsonb,
     numeric_add_opt_error = example_numeric_op (+),
     numeric_sub_opt_error = example_numeric_op (-),
     numeric_mul_opt_error = example_numeric_mul,
     numeric_div_opt_error =
       example_numeric_div (\<lambda>x y. sgn x * sgn y * (\<bar>x\<bar> div \<bar>y\<bar>)),
     numeric_mod_opt_error =
       example_numeric_div (\<lambda>x y. x - y * (sgn x * sgn y * (\<bar>x\<bar> div \<bar>y\<bar>))),
     numeric_uminus = example_numeric_uminus \<rparr>"

section \<open>Definitions for the statements\<close>

text \<open>
  The datetime ladder as the specification tabulates it: an entry compares the two
  types, compares them and requires the use of the time zone, or marks them as
  uncomparable.  The table has no entry for a type outside the datetime family.
\<close>

datatype ladder_entry = ladder_cmp | ladder_cmp_tz | ladder_uncomparable

fun ladder :: "Oid \<Rightarrow> Oid \<Rightarrow> ladder_entry option" where
  "ladder DATEOID DATEOID = Some ladder_cmp"
| "ladder DATEOID TIMEOID = Some ladder_uncomparable"
| "ladder DATEOID TIMETZOID = Some ladder_uncomparable"
| "ladder DATEOID TIMESTAMPOID = Some ladder_cmp"
| "ladder DATEOID TIMESTAMPTZOID = Some ladder_cmp_tz"
| "ladder TIMEOID DATEOID = Some ladder_uncomparable"
| "ladder TIMEOID TIMEOID = Some ladder_cmp"
| "ladder TIMEOID TIMETZOID = Some ladder_cmp_tz"
| "ladder TIMEOID TIMESTAMPOID = Some ladder_uncomparable"
| "ladder TIMEOID TIMESTAMPTZOID = Some ladder_uncomparable"
| "ladder TIMETZOID DATEOID = Some ladder_uncomparable"
| "ladder TIMETZOID TIMEOID = Some ladder_cmp_tz"
| "ladder TIMETZOID TIMETZOID = Some ladder_cmp"
| "ladder TIMETZOID TIMESTAMPOID = Some ladder_uncomparable"
| "ladder TIMETZOID TIMESTAMPTZOID = Some ladder_uncomparable"
| "ladder TIMESTAMPOID DATEOID = Some ladder_cmp"
| "ladder TIMESTAMPOID TIMEOID = Some ladder_uncomparable"
| "ladder TIMESTAMPOID TIMETZOID = Some ladder_uncomparable"
| "ladder TIMESTAMPOID TIMESTAMPOID = Some ladder_cmp"
| "ladder TIMESTAMPOID TIMESTAMPTZOID = Some ladder_cmp_tz"
| "ladder TIMESTAMPTZOID DATEOID = Some ladder_cmp_tz"
| "ladder TIMESTAMPTZOID TIMEOID = Some ladder_uncomparable"
| "ladder TIMESTAMPTZOID TIMETZOID = Some ladder_uncomparable"
| "ladder TIMESTAMPTZOID TIMESTAMPOID = Some ladder_cmp_tz"
| "ladder TIMESTAMPTZOID TIMESTAMPTZOID = Some ladder_cmp"
| "ladder t1 t2 = None"

text \<open>
  The contract of the host's comparison functions of one type that the symmetry of the
  ladder rests on: exchanging the arguments negates the result.
\<close>

definition host_cmp_antisymmetric :: "Host \<Rightarrow> bool" where
  "host_cmp_antisymmetric h =
     ((\<forall>a b. date_cmp h a b = - date_cmp h b a) \<and>
      (\<forall>a b. time_cmp h a b = - time_cmp h b a) \<and>
      (\<forall>a b. timetz_cmp h a b = - timetz_cmp h b a) \<and>
      (\<forall>a b. timestamp_cmp h a b = - timestamp_cmp h b a))"

text \<open>A result that is a raised error with the given code.\<close>

definition raises :: "error + 'a \<Rightarrow> ErrCode \<Rightarrow> bool" where
  "raises r code = (case r of Inl (ereport c msg) \<Rightarrow> c = code | Inr x \<Rightarrow> False)"

text \<open>The result of a comparison with its integer negated.\<close>

definition mirrored :: "error + int32 \<times> bool \<Rightarrow> error + int32 \<times> bool" where
  "mirrored r =
     (case r of Inl e \<Rightarrow> Inl e | Inr (c, cast_error) \<Rightarrow> Inr (- c, cast_error))"

text \<open>The walker of the examples: no variables, no other item types.\<close>

definition example_walker :: "nat \<Rightarrow> walker" where
  "example_walker depth =
     executeItemOptUnwrapTarget unrecognized_item example_host None depth"

text \<open>Paths and documents of the examples.\<close>

definition example_number :: "int \<Rightarrow> JsonbValue" where
  "example_number n = JsonbNumeric (NumericFinite n 0)"

definition example_literal :: "int \<Rightarrow> JsonPathItem" where
  "example_literal n = JsonPathItem jpiNumeric (content_value (example_number n)) None"

text \<open>The document \<^verbatim>\<open>{"a": 1, "b": 2}\<close>, stored at the address 1000.\<close>

definition example_doc :: JsonbContainer where
  "example_doc =
     JsonbContainer 1000 (JBObject [(''a'', example_number 1), (''b'', example_number 2)])"

text \<open>The paths \<^verbatim>\<open>$\<close>, \<^verbatim>\<open>$.c\<close> and \<^verbatim>\<open>$.keyvalue()\<close>.\<close>

definition path_root :: JsonPathItem where
  "path_root = JsonPathItem jpiRoot content_none None"


definition path_root_keyvalue :: JsonPathItem where
  "path_root_keyvalue =
     JsonPathItem jpiRoot content_none (Some (JsonPathItem jpiKeyValue content_none None))"

text \<open>The predicate \<^verbatim>\<open>m == n\<close> on two literals.\<close>

definition path_equal :: "int \<Rightarrow> int \<Rightarrow> JsonPathItem" where
  "path_equal m n =
     JsonPathItem jpiEqual (content_args (example_literal m) (example_literal n)) None"

text \<open>The variable \<^verbatim>\<open>$x\<close>.\<close>

definition path_variable_x :: JsonPathItem where
  "path_variable_x = JsonPathItem jpiVariable (content_value (JsonbString ''x'')) None"

definition strict_path :: "JsonPathItem \<Rightarrow> JsonPath" where
  "strict_path jsp = \<lparr>JSONPATH_LAX = False, jspInit = jsp\<rparr>"

definition lax_path :: "JsonPathItem \<Rightarrow> JsonPath" where
  "lax_path jsp = \<lparr>JSONPATH_LAX = True, jspInit = jsp\<rparr>"

text \<open>
  Kleene's conjunction and disjunction as the specification words them: AND is False if
  either operand is False, else Unknown if either is Unknown, else True; OR is True if
  either operand is True, else Unknown if either is Unknown, else False.
\<close>

definition kleene_and :: "JsonPathBool \<Rightarrow> JsonPathBool \<Rightarrow> JsonPathBool" where
  "kleene_and a b =
     (if a = jpbFalse \<or> b = jpbFalse then jpbFalse
      else if a = jpbUnknown \<or> b = jpbUnknown then jpbUnknown
      else jpbTrue)"

definition kleene_or :: "JsonPathBool \<Rightarrow> JsonPathBool \<Rightarrow> JsonPathBool" where
  "kleene_or a b =
     (if a = jpbTrue \<or> b = jpbTrue then jpbTrue
      else if a = jpbUnknown \<or> b = jpbUnknown then jpbUnknown
      else jpbFalse)"

text \<open>The predicates \<^verbatim>\<open>$x == 1\<close>, \<^verbatim>\<open>1 == 2 && $x == 1\<close> and \<^verbatim>\<open>1 == 1 || $x == 1\<close>.\<close>

definition path_x_equal_1 :: JsonPathItem where
  "path_x_equal_1 =
     JsonPathItem jpiEqual (content_args path_variable_x (example_literal 1)) None"

definition path_and :: "JsonPathItem \<Rightarrow> JsonPathItem \<Rightarrow> JsonPathItem" where
  "path_and larg rarg = JsonPathItem jpiAnd (content_args larg rarg) None"

definition path_or :: "JsonPathItem \<Rightarrow> JsonPathItem \<Rightarrow> JsonPathItem" where
  "path_or larg rarg = JsonPathItem jpiOr (content_args larg rarg) None"

text \<open>The context of a strict evaluation of the example document that throws errors.\<close>

definition example_strict_cxt :: JsonPathExecContext where
  "example_strict_cxt =
     executeJsonPath_context (strict_path path_root) 0 (JsonbBinary example_doc) True False"

text \<open>A sequence that is exactly one numeric value.\<close>

definition numeric_singleton :: "JsonValueList \<Rightarrow> bool" where
  "numeric_singleton seq =
     (case JsonValueListGetList seq of [JsonbNumeric n] \<Rightarrow> True | _ \<Rightarrow> False)"

text \<open>The list after the items have been appended to it one by one.\<close>

definition JsonValueListAppendAll :: "JsonValueList \<Rightarrow> JsonbValue list \<Rightarrow> JsonValueList" where
  "JsonValueListAppendAll jvl items = foldl JsonValueListAppend jvl items"

text \<open>
  The paths \<^verbatim>\<open>1 + "a"\<close>, \<^verbatim>\<open>-$[*]\<close> (the operand unwraps in lax mode) and the documents
  \<^verbatim>\<open>[1, 2]\<close> and \<^verbatim>\<open>[1, "a"]\<close>.
\<close>

definition path_1_plus_a :: JsonPathItem where
  "path_1_plus_a =
     JsonPathItem jpiAdd
       (content_args (example_literal 1)
          (JsonPathItem jpiString (content_value (JsonbString ''a'')) None))
       None"

definition path_minus_root :: JsonPathItem where
  "path_minus_root = JsonPathItem jpiMinus (content_arg path_root) None"

definition example_array_1_2 :: JsonbContainer where
  "example_array_1_2 = JsonbContainer 2000 (JBArray [example_number 1, example_number 2])"

definition example_array_1_a :: JsonbContainer where
  "example_array_1_a = JsonbContainer 3000 (JBArray [example_number 1, JsonbString ''a''])"

text \<open>The context of a lax evaluation of a document that does not throw errors.\<close>

definition example_lax_cxt :: "JsonbContainer \<Rightarrow> JsonPathExecContext" where
  "example_lax_cxt doc =
     executeJsonPath_context (lax_path path_root) 0 (JsonbBinary doc) False False"

text \<open>
  The iterator of a path scan is valid if it has no cell left once it has no value to
  hand out, as after \<^verbatim>\<open>palloc0\<close> and after \<^verbatim>\<open>JsonValueListInitIterator\<close>.  The iterators
  that the next fetch from a plan can read are those of the path scans that are reached
  through sibling joins alone.
\<close>

fun iterators_valid :: "JsonTablePlanState \<Rightarrow> bool" where
  "iterators_valid (JsonTablePathScanState path errorOnError found iter cur ordinal nested) =
     (it_value iter = None \<longrightarrow> it_next iter = [])"
| "iterators_valid (JsonTableSiblingJoinState left right) =
     (iterators_valid left \<and> iterators_valid right)"

text \<open>
  The rows fetched from a plan: \<open>fetched_rows T h args planstate rows final\<close> says that
  the calls of \<^verbatim>\<open>JsonTablePlanNextRow\<close> from the state \<open>planstate\<close> on return true once for
  each of \<open>rows\<close>, a row being the state that the call leaves, from which the columns of
  the row are read, and then return false and leave the state \<open>final\<close>.
\<close>

fun fetched_rows ::
  "walker \<Rightarrow> Host \<Rightarrow> 'a list \<Rightarrow> JsonTablePlanState \<Rightarrow> JsonTablePlanState list
     \<Rightarrow> JsonTablePlanState \<Rightarrow> bool" where
  "fetched_rows T h args planstate [] final =
     (JsonTablePlanNextRow T h args planstate = Inr (False, final))"
| "fetched_rows T h args planstate (row # rows) final =
     (JsonTablePlanNextRow T h args planstate = Inr (True, row) \<and>
      fetched_rows T h args row rows final)"

text \<open>
  The plan of the examples: the sibling join of the path scans of \<^verbatim>\<open>lax $.keyvalue()\<close> and
  of \<^verbatim>\<open>lax $\<close>, without nested plans.
\<close>

definition example_plan :: JsonTablePlan where
  "example_plan =
     JsonTableSiblingJoin
       (JsonTablePathScan (lax_path path_root_keyvalue) False None)
       (JsonTablePathScan (lax_path path_root) False None)"

text \<open>The value that \<^verbatim>\<open>JsonTablePlanNextRow\<close> returns, without the state that it leaves.\<close>

definition JsonTablePlanNextRow_returns ::
  "walker \<Rightarrow> Host \<Rightarrow> 'a list \<Rightarrow> JsonTablePlanState \<Rightarrow> error + bool" where
  "JsonTablePlanNextRow_returns T h args planstate =
     (case JsonTablePlanNextRow T h args planstate of
        Inl e \<Rightarrow> Inl e
      | Inr (has_row, planstate') \<Rightarrow> Inr has_row)"

text \<open>
  The states of the two path scans over the document \<^verbatim>\<open>{"a": 1, "b": 2}\<close>.  The left one
  has found the two objects of \<^verbatim>\<open>$.keyvalue()\<close>, the right one the document; the arguments
  are the fields that a fetch changes.
\<close>

definition example_keyvalue :: "string \<Rightarrow> int \<Rightarrow> JsonbValue" where
  "example_keyvalue k v =
     JsonbBinary (JsonbContainer 4096
       (JBObject [(''key'', JsonbString k), (''value'', example_number v),
          (''id'', example_number 0)]))"

definition example_left_state ::
  "JsonbValue option \<Rightarrow> JsonbValue list \<Rightarrow> JsonbValue option \<Rightarrow> int32 \<Rightarrow> JsonTablePlanState"
where
  "example_left_state v cells cur ordinal =
     JsonTablePathScanState (lax_path path_root_keyvalue) False
       \<lparr>jvl_singleton = None,
          jvl_list = [example_keyvalue ''a'' 1, example_keyvalue ''b'' 2]\<rparr>
       \<lparr>it_value = v,
          it_list = [example_keyvalue ''a'' 1, example_keyvalue ''b'' 2],
          it_next = cells\<rparr>
       (map_option example_JsonbValueToJsonb cur) ordinal None"

definition example_right_state ::
  "JsonbValue option \<Rightarrow> JsonbValue option \<Rightarrow> int32 \<Rightarrow> JsonTablePlanState" where
  "example_right_state v cur ordinal =
     JsonTablePathScanState (lax_path path_root) False
       \<lparr>jvl_singleton = Some (JsonbBinary example_doc), jvl_list = []\<rparr>
       \<lparr>it_value = v, it_list = [], it_next = []\<rparr>
       (map_option example_JsonbValueToJsonb cur) ordinal None"










text \<open>
  The output items of a step handed to the rest of the path, as the specification words
  it: each item in order goes to the next step, or to the result list where no step
  follows; the first error ends it, with the raised error or the status; the status is Ok
  once an item has given Ok.  \<open>None\<close> says that a call has handed back no list although
  it was given one, which a function that gets the list by its address cannot do.
\<close>

fun outputs_in_order ::
  "walker \<Rightarrow> JsonPathExecContext \<Rightarrow> JsonPathItem \<Rightarrow> JsonbValue list \<Rightarrow> JsonValueList
     \<Rightarrow> JsonPathExecResult \<Rightarrow> exec_result option" where
  "outputs_in_order T cxt jsp [] found jper = Some (Inr (jper, cxt, Some found))"
| "outputs_in_order T cxt jsp (out # outs) found jper =
     (case executeNextItem T cxt (Some jsp) (jsp_next jsp) out (Some found) False of
        Inl e \<Rightarrow> Some (Inl e)
      | Inr (jper2, cxt', None) \<Rightarrow> None
      | Inr (jper2, cxt', Some found') \<Rightarrow>
          if jperIsError jper2 then Some (Inr (jper2, cxt', Some found'))
          else outputs_in_order T cxt' jsp outs found'
                 (if jper2 = jperOk then jperOk else jper))"

text \<open>The path \<^verbatim>\<open>(-$) ? (@ == n)\<close>.\<close>

definition path_minus_root_equal :: "int \<Rightarrow> JsonPathItem" where
  "path_minus_root_equal n =
     JsonPathItem jpiMinus (content_arg path_root)
       (Some (JsonPathItem jpiFilter
          (content_arg (JsonPathItem jpiEqual
             (content_args (JsonPathItem jpiCurrent content_none None) (example_literal n))
             None))
          None))"




section \<open>Properties of the comparison kernel\<close>

text \<open>
  Claim C3.  For each of the comparison operators, comparing a JSON null with an item
  that is not null yields False, except for \<open>\<noteq>\<close>, which yields True; and comparing two
  items that are not null and have different kinds yields Unknown.  (The code does not even
  look at the operator before the first test, so this holds for each \<open>op\<close>.)
\<close>

theorem compareItems_null_and_mixed_kinds:
  "((jbv_type jb1 = jbvNull) \<noteq> (jbv_type jb2 = jbvNull) \<longrightarrow>
      compareItems h op jb1 jb2 tz =
        Inr (if op = jpiNotEqual then jpbTrue else jpbFalse)) \<and>
   (jbv_type jb1 \<noteq> jbvNull \<and> jbv_type jb2 \<noteq> jbvNull \<and> jbv_type jb1 \<noteq> jbv_type jb2 \<longrightarrow>
      compareItems h op jb1 jb2 tz = Inr jpbUnknown)"
  by auto

theorem compareItems_null_and_mixed_kinds_witness:
  "compareItems example_host jpiLess JsonbNull (JsonbBool True) False = Inr jpbFalse \<and>
   compareItems example_host jpiNotEqual (JsonbString ''a'') JsonbNull False = Inr jpbTrue \<and>
   compareItems example_host jpiEqual (JsonbBool True) (JsonbString ''a'') False =
     Inr jpbUnknown"
  using
    compareItems_null_and_mixed_kinds
      [of JsonbNull "JsonbBool True" example_host jpiLess False]
    compareItems_null_and_mixed_kinds
      [of "JsonbString ''a''" JsonbNull example_host jpiNotEqual False]
    compareItems_null_and_mixed_kinds
      [of "JsonbBool True" "JsonbString ''a''" example_host jpiEqual False]
  by simp

text \<open>
  Claim C9.  Two JSON nulls compare as equal scalars: \<open>==\<close>, \<open><=\<close> and \<open>>=\<close> yield True,
  and \<open><>\<close>, \<open><\<close> and \<open>>\<close> yield False.
\<close>

theorem compareItems_null_null:
  "compareItems h jpiEqual JsonbNull JsonbNull tz = Inr jpbTrue \<and>
   compareItems h jpiNotEqual JsonbNull JsonbNull tz = Inr jpbFalse \<and>
   compareItems h jpiLessOrEqual JsonbNull JsonbNull tz = Inr jpbTrue \<and>
   compareItems h jpiGreaterOrEqual JsonbNull JsonbNull tz = Inr jpbTrue \<and>
   compareItems h jpiLess JsonbNull JsonbNull tz = Inr jpbFalse \<and>
   compareItems h jpiGreater JsonbNull JsonbNull tz = Inr jpbFalse"
  by (simp add: compareItems_op_def)

lemmas datetime_defs =
  compareDatetime_def mirrored_def returns_def negate_def cmpDateToTimestamp_def
  cmpDateToTimestampTz_def cmpTimestampToTimestampTz_def castTimeToTimeTz_def
  checkTimezoneIsUsedForCast_def uncomparable_def unrecognized_oid_def

lemma compareDatetime_antisym:
  assumes h: "host_cmp_antisymmetric h" and l: "ladder t1 t2 = Some e"
    and e: "e \<noteq> ladder_uncomparable"
  shows "compareDatetime h v1 t1 v2 t2 tz = mirrored (compareDatetime h v2 t2 v1 t1 tz)"
proof -
  have d: "date_cmp h v1 v2 = - date_cmp h v2 v1"
    and t: "time_cmp h v1 v2 = - time_cmp h v2 v1"
    and z: "timetz_cmp h v1 v2 = - timetz_cmp h v2 v1"
    and z1: "timetz_cmp h (time_timetz h v1) v2 = - timetz_cmp h v2 (time_timetz h v1)"
    and z2: "timetz_cmp h v1 (time_timetz h v2) = - timetz_cmp h (time_timetz h v2) v1"
    and s: "timestamp_cmp h v1 v2 = - timestamp_cmp h v2 v1"
    using h unfolding host_cmp_antisymmetric_def by blast+
  show ?thesis
  proof (cases t1)
    case DATEOID
    with l e d show ?thesis by (cases t2) (simp_all add: datetime_defs split: sum.splits)
  next
    case TIMEOID
    with l e t z1 show ?thesis by (cases t2) (simp_all add: datetime_defs split: sum.splits)
  next
    case TIMETZOID
    with l e z z2 show ?thesis by (cases t2) (simp_all add: datetime_defs split: sum.splits)
  next
    case TIMESTAMPOID
    with l e s show ?thesis by (cases t2) (simp_all add: datetime_defs split: sum.splits)
  next
    case TIMESTAMPTZOID
    with l e s show ?thesis by (cases t2) (simp_all add: datetime_defs split: sum.splits)
  next
    case (OTHEROID x)
    with l show ?thesis by simp
  qed
qed

lemma compareItems_uncomparable:
  assumes "ladder t1 t2 = Some ladder_uncomparable"
  shows "compareItems h op (JsonbDatetime v1 t1 m1 z1) (JsonbDatetime v2 t2 m2 z2) tz =
           Inr jpbUnknown"
  using assms
  by (cases t1; cases t2) (simp_all add: compareDatetime_def uncomparable_def)

lemma compare_tz_required:
  assumes "ladder t1 t2 = Some ladder_cmp_tz"
  shows "raises (compareDatetime h v1 t1 v2 t2 False) ERRCODE_FEATURE_NOT_SUPPORTED \<and>
         raises (compareItems h op (JsonbDatetime v1 t1 m1 z1) (JsonbDatetime v2 t2 m2 z2)
                   False) ERRCODE_FEATURE_NOT_SUPPORTED"
  using assms
  by (cases t1; cases t2)
     (simp_all add: compareDatetime_def returns_def negate_def raises_def
        cmpDateToTimestampTz_def cmpTimestampToTimestampTz_def castTimeToTimeTz_def
        checkTimezoneIsUsedForCast_def)

lemma sint_cmp_antisym: "sint_cmp a b = - sint_cmp b a"
  by (auto simp: sint_cmp_def word_sless_alt intro: signed_word_eqI)

lemma example_host_antisymmetric: "host_cmp_antisymmetric example_host"
  unfolding host_cmp_antisymmetric_def example_host_def
  by (simp; intro conjI allI; rule sint_cmp_antisym)

text \<open>
  Claim C4.  Where the ladder compares two datetime types, the comparison of the values in
  one order is the negated comparison in the other order (an error that one order raises
  is raised by the other), given that the host's comparisons of one type have this
  property.  Where the ladder marks the two types as uncomparable every comparison
  operator yields Unknown.  Where the entry requires the use of the time zone and
  \<open>useTz\<close> is false, the comparison raises \<open>FEATURE_NOT_SUPPORTED\<close>; it does not
  yield Unknown.
\<close>

theorem compareDatetime_ladder:
  "(host_cmp_antisymmetric h \<and> ladder t1 t2 = Some e \<and> e \<noteq> ladder_uncomparable \<longrightarrow>
      compareDatetime h v1 t1 v2 t2 tz = mirrored (compareDatetime h v2 t2 v1 t1 tz)) \<and>
   (ladder t1 t2 = Some ladder_uncomparable \<longrightarrow>
      compareItems h op (JsonbDatetime v1 t1 m1 z1) (JsonbDatetime v2 t2 m2 z2) tz =
        Inr jpbUnknown) \<and>
   (ladder t1 t2 = Some ladder_cmp_tz \<longrightarrow>
      raises (compareDatetime h v1 t1 v2 t2 False) ERRCODE_FEATURE_NOT_SUPPORTED \<and>
      raises (compareItems h op (JsonbDatetime v1 t1 m1 z1) (JsonbDatetime v2 t2 m2 z2)
                False) ERRCODE_FEATURE_NOT_SUPPORTED)"
proof (intro conjI impI)
  assume "host_cmp_antisymmetric h \<and> ladder t1 t2 = Some e \<and> e \<noteq> ladder_uncomparable"
  then show "compareDatetime h v1 t1 v2 t2 tz = mirrored (compareDatetime h v2 t2 v1 t1 tz)"
    using compareDatetime_antisym by blast
next
  assume "ladder t1 t2 = Some ladder_uncomparable"
  then show "compareItems h op (JsonbDatetime v1 t1 m1 z1) (JsonbDatetime v2 t2 m2 z2) tz =
      Inr jpbUnknown"
    by (rule compareItems_uncomparable)
next
  assume l: "ladder t1 t2 = Some ladder_cmp_tz"
  show "raises (compareDatetime h v1 t1 v2 t2 False) ERRCODE_FEATURE_NOT_SUPPORTED"
    using compare_tz_required [OF l] by blast
  show "raises (compareItems h op (JsonbDatetime v1 t1 m1 z1) (JsonbDatetime v2 t2 m2 z2)
                False) ERRCODE_FEATURE_NOT_SUPPORTED"
    using compare_tz_required [OF l] by blast
qed

theorem compareDatetime_ladder_witness:
  "compareDatetime example_host 3 DATEOID 5 TIMESTAMPOID False = Inr (- 1, False) \<and>
   compareDatetime example_host 5 TIMESTAMPOID 3 DATEOID False = Inr (1, False) \<and>
   compareDatetime example_host 3 DATEOID 5 TIMESTAMPOID False =
     mirrored (compareDatetime example_host 5 TIMESTAMPOID 3 DATEOID False) \<and>
   compareItems example_host jpiLess (JsonbDatetime 3 DATEOID (- 1) 0)
     (JsonbDatetime 5 TIMEOID (- 1) 0) True = Inr jpbUnknown \<and>
   raises (compareItems example_host jpiLess (JsonbDatetime 3 TIMEOID (- 1) 0)
             (JsonbDatetime 5 TIMETZOID (- 1) 0) False) ERRCODE_FEATURE_NOT_SUPPORTED"
proof -
  have a: "compareDatetime example_host 3 DATEOID 5 TIMESTAMPOID False = Inr (- 1, False)"
    by (simp add: compareDatetime_def example_host_def sint_cmp_def returns_def
          cmpDateToTimestamp_def)
  have b: "compareDatetime example_host 5 TIMESTAMPOID 3 DATEOID False = Inr (1, False)"
    by (simp add: compareDatetime_def example_host_def sint_cmp_def returns_def negate_def
          cmpDateToTimestamp_def)
  have c: "compareDatetime example_host 3 DATEOID 5 TIMESTAMPOID False =
      mirrored (compareDatetime example_host 5 TIMESTAMPOID 3 DATEOID False)"
    using example_host_antisymmetric
      compareDatetime_ladder
        [of example_host DATEOID TIMESTAMPOID ladder_cmp 3 5 False jpiLess "- 1" 0 "- 1" 0]
    by simp
  have d: "compareItems example_host jpiLess (JsonbDatetime 3 DATEOID (- 1) 0)
      (JsonbDatetime 5 TIMEOID (- 1) 0) True = Inr jpbUnknown"
    using compareDatetime_ladder
        [of example_host DATEOID TIMEOID ladder_uncomparable 3 5 True jpiLess "- 1" 0 "- 1" 0]
    by simp
  have e: "raises (compareItems example_host jpiLess (JsonbDatetime 3 TIMEOID (- 1) 0)
      (JsonbDatetime 5 TIMETZOID (- 1) 0) False) ERRCODE_FEATURE_NOT_SUPPORTED"
    using compareDatetime_ladder
        [of example_host TIMEOID TIMETZOID ladder_cmp_tz 3 5 False jpiLess "- 1" 0 "- 1" 0]
    by simp
  from a b c d e show ?thesis by blast
qed







text \<open>
  Claim C7.  Where the evaluation of the path returns, \<^verbatim>\<open>jsonb_path_match\<close> returns the
  boolean if the result is exactly one boolean item and the SQL null if it is exactly one
  JSON null; for every other result it returns the SQL null when \<open>silent\<close> is true and
  raises \<open>SINGLETON_SQL_JSON_ITEM_REQUIRED\<close> when it is false.
\<close>

theorem jsonb_path_match_internal_result:
  "vars = map_option fst args \<Longrightarrow>
   silent = (case args of Some (v, s) \<Rightarrow> s | None \<Rightarrow> True) \<Longrightarrow>
   executeJsonPath T jp vars countVariablesFromJsonb jb (\<not> silent)
     (Some JsonValueListInit) tz = Inr (res, Some found) \<Longrightarrow>
   jsonb_path_match_internal T jb jp args tz =
     (case JsonValueListGetList found of
        [JsonbBool b] \<Rightarrow> Inr (Some b)
      | [JsonbNull] \<Rightarrow> Inr None
      | _ \<Rightarrow>
          if silent then Inr None
          else Inl (ereport ERRCODE_SINGLETON_SQL_JSON_ITEM_REQUIRED
                      ''single boolean result is expected''))"
proof -
  assume vars: "vars = map_option fst args"
    and silent: "silent = (case args of Some (v, s) \<Rightarrow> s | None \<Rightarrow> True)"
    and run: "executeJsonPath T jp vars countVariablesFromJsonb jb (\<not> silent)
      (Some JsonValueListInit) tz = Inr (res, Some found)"
  have v: "(case args of Some (v, s) \<Rightarrow> Some v | None \<Rightarrow> None) = vars"
    using vars by (cases args) auto
  have single: "(if JsonValueListLength found = 1
         then (case JsonValueListHead found of
                 Some (JsonbBool boolean) \<Rightarrow> Some (Some boolean)
               | Some JsonbNull \<Rightarrow> Some None
               | _ \<Rightarrow> None)
         else None) =
        (case JsonValueListGetList found of
           [JsonbBool b] \<Rightarrow> Some (Some b)
         | [JsonbNull] \<Rightarrow> Some None
         | _ \<Rightarrow> None)"
  proof (cases "jvl_singleton found")
    case (Some s)
    then show ?thesis
      by (cases s)
         (simp_all add: JsonValueListLength_def JsonValueListHead_def JsonValueListGetList_def)
  next
    case None
    show ?thesis
    proof (cases "jvl_list found")
      case Nil
      with None show ?thesis
        by (simp add: JsonValueListLength_def JsonValueListHead_def JsonValueListGetList_def)
    next
      case (Cons x xs)
      with None show ?thesis
        by (cases x; cases xs)
           (simp_all add: JsonValueListLength_def JsonValueListHead_def
              JsonValueListGetList_def)
    qed
  qed
  have "jsonb_path_match_internal T jb jp args tz =
      (case (case JsonValueListGetList found of
               [JsonbBool b] \<Rightarrow> Some (Some b)
             | [JsonbNull] \<Rightarrow> Some None
             | _ \<Rightarrow> None) of
         Some datum \<Rightarrow> Inr datum
       | None \<Rightarrow>
           if \<not> silent
           then Inl (ereport ERRCODE_SINGLETON_SQL_JSON_ITEM_REQUIRED
                       ''single boolean result is expected'')
           else Inr None)"
    unfolding jsonb_path_match_internal_def Let_def v silent [symmetric] run
    by (simp add: local_list_def single split del: if_split cong: if_cong)
  also have "\<dots> = (case JsonValueListGetList found of
        [JsonbBool b] \<Rightarrow> Inr (Some b)
      | [JsonbNull] \<Rightarrow> Inr None
      | _ \<Rightarrow>
          if silent then Inr None
          else Inl (ereport ERRCODE_SINGLETON_SQL_JSON_ITEM_REQUIRED
                      ''single boolean result is expected''))"
    by (simp split: list.splits JsonbValue.splits)
  finally show ?thesis .
qed


theorem jsonb_path_match_internal_result_witness:
  "jsonb_path_match_internal (example_walker 5) example_doc (lax_path (path_equal 1 1))
     None False = Inr (Some True) \<and>
   jsonb_path_match_internal (example_walker 5) example_doc (lax_path path_root)
     (Some (example_doc, False)) False =
     Inl (ereport ERRCODE_SINGLETON_SQL_JSON_ITEM_REQUIRED
            ''single boolean result is expected'') \<and>
   jsonb_path_match_internal (example_walker 5) example_doc (lax_path path_root)
     (Some (example_doc, True)) False = Inr None"
proof -
  have a: "executeJsonPath (example_walker 5) (lax_path (path_equal 1 1)) None
      countVariablesFromJsonb example_doc (\<not> True) (Some JsonValueListInit) False =
      Inr (jperOk, Some \<lparr>jvl_singleton = Some (JsonbBool True), jvl_list = []\<rparr>)"
    by code_simp
  have b: "executeJsonPath (example_walker 5) (lax_path path_root) (Some example_doc)
      countVariablesFromJsonb example_doc (\<not> False) (Some JsonValueListInit) False =
      Inr (jperOk, Some \<lparr>jvl_singleton = Some (JsonbBinary example_doc), jvl_list = []\<rparr>)"
    by code_simp
  have c: "executeJsonPath (example_walker 5) (lax_path path_root) (Some example_doc)
      countVariablesFromJsonb example_doc (\<not> True) (Some JsonValueListInit) False =
      Inr (jperOk, Some \<lparr>jvl_singleton = Some (JsonbBinary example_doc), jvl_list = []\<rparr>)"
    by code_simp
  show ?thesis
    using
      jsonb_path_match_internal_result [OF _ _ a, of None]
      jsonb_path_match_internal_result [OF _ _ b, of "Some (example_doc, False)"]
      jsonb_path_match_internal_result [OF _ _ c, of "Some (example_doc, True)"]
    by (simp add: JsonValueListGetList_def)
qed

section \<open>Properties of the predicates\<close>

lemma kleene_and_code:
  "res \<noteq> jpbFalse \<Longrightarrow> (if res2 = jpbTrue then res else res2) = kleene_and res res2"
  by (cases res; cases res2) (simp_all add: kleene_and_def)

lemma kleene_or_code:
  "res \<noteq> jpbTrue \<Longrightarrow> (if res2 = jpbFalse then res else res2) = kleene_or res res2"
  by (cases res; cases res2) (simp_all add: kleene_or_def)

text \<open>
  Claim C2, as the code has it.  AND and OR evaluate the left operand first.  If it is
  False (for AND) or True (for OR) that is the result and the right operand is not
  evaluated: the result is the same for every right operand, in strict mode as in lax
  mode.  Otherwise the right operand is evaluated, an error that it raises is raised, and
  the result is Kleene's conjunction or disjunction of the two results.
\<close>

theorem executeBoolItem_and_or:
  "(executeBoolItem T h cxt larg jb False = Inr (jpbFalse, cxt1) \<longrightarrow>
      executeBoolItem T h cxt (JsonPathItem jpiAnd (content_args larg rarg) None) jb chn =
        Inr (jpbFalse, cxt1)) \<and>
   (executeBoolItem T h cxt larg jb False = Inr (res, cxt1) \<and> res \<noteq> jpbFalse \<longrightarrow>
      executeBoolItem T h cxt (JsonPathItem jpiAnd (content_args larg rarg) None) jb chn =
        (case executeBoolItem T h cxt1 rarg jb False of
           Inl e \<Rightarrow> Inl e
         | Inr (res2, cxt2) \<Rightarrow> Inr (kleene_and res res2, cxt2))) \<and>
   (executeBoolItem T h cxt larg jb False = Inr (jpbTrue, cxt1) \<longrightarrow>
      executeBoolItem T h cxt (JsonPathItem jpiOr (content_args larg rarg) None) jb chn =
        Inr (jpbTrue, cxt1)) \<and>
   (executeBoolItem T h cxt larg jb False = Inr (res, cxt1) \<and> res \<noteq> jpbTrue \<longrightarrow>
      executeBoolItem T h cxt (JsonPathItem jpiOr (content_args larg rarg) None) jb chn =
        (case executeBoolItem T h cxt1 rarg jb False of
           Inl e \<Rightarrow> Inl e
         | Inr (res2, cxt2) \<Rightarrow> Inr (kleene_or res res2, cxt2)))"
  by (auto simp: kleene_and_code kleene_or_code split: sum.splits)

lemma example_left_false:
  "executeBoolItem (example_walker 5) example_host example_strict_cxt (path_equal 1 2)
     (JsonbBinary example_doc) False = Inr (jpbFalse, example_strict_cxt)"
  by code_simp

lemma example_left_true:
  "executeBoolItem (example_walker 5) example_host example_strict_cxt (path_equal 1 1)
     (JsonbBinary example_doc) False = Inr (jpbTrue, example_strict_cxt)"
  by code_simp

lemma example_right_raises:
  "executeBoolItem (example_walker 5) example_host example_strict_cxt path_x_equal_1
     (JsonbBinary example_doc) False =
     Inl (ereport ERRCODE_UNDEFINED_OBJECT ''could not find jsonpath variable \"%s\"'')"
  by code_simp

text \<open>
  The claim as the specification states it fails in strict mode on
  \<^verbatim>\<open>1 == 2 && $x == 1\<close> where no variable is passed: the right operand alone raises, for the
  variable that is missing, and the conjunction yields False without raising.
\<close>

theorem executeBoolItem_and_counterexample:
  "\<not> laxMode example_strict_cxt \<and>
   executeBoolItem (example_walker 5) example_host example_strict_cxt path_x_equal_1
     (JsonbBinary example_doc) False =
     Inl (ereport ERRCODE_UNDEFINED_OBJECT ''could not find jsonpath variable \"%s\"'') \<and>
   executeBoolItem (example_walker 5) example_host example_strict_cxt
     (path_and (path_equal 1 2) path_x_equal_1) (JsonbBinary example_doc) True =
     Inr (jpbFalse, example_strict_cxt)"
  by code_simp

theorem executeBoolItem_and_or_witness:
  "executeBoolItem (example_walker 5) example_host example_strict_cxt
     (path_and (path_equal 1 2) path_x_equal_1) (JsonbBinary example_doc) True =
     Inr (jpbFalse, example_strict_cxt) \<and>
   executeBoolItem (example_walker 5) example_host example_strict_cxt
     (path_and (path_equal 1 1) path_x_equal_1) (JsonbBinary example_doc) True =
     Inl (ereport ERRCODE_UNDEFINED_OBJECT ''could not find jsonpath variable \"%s\"'') \<and>
   executeBoolItem (example_walker 5) example_host example_strict_cxt
     (path_or (path_equal 1 1) path_x_equal_1) (JsonbBinary example_doc) True =
     Inr (jpbTrue, example_strict_cxt) \<and>
   executeBoolItem (example_walker 5) example_host example_strict_cxt
     (path_or (path_equal 1 2) (path_equal 1 1)) (JsonbBinary example_doc) True =
     Inr (jpbTrue, example_strict_cxt)"
  using example_left_false example_left_true example_right_raises
    executeBoolItem_and_or
      [of "example_walker 5" example_host example_strict_cxt "path_equal 1 2"
          "JsonbBinary example_doc" example_strict_cxt path_x_equal_1 True jpbFalse]
    executeBoolItem_and_or
      [of "example_walker 5" example_host example_strict_cxt "path_equal 1 1"
          "JsonbBinary example_doc" example_strict_cxt path_x_equal_1 True jpbTrue]
    executeBoolItem_and_or
      [of "example_walker 5" example_host example_strict_cxt "path_equal 1 2"
          "JsonbBinary example_doc" example_strict_cxt "path_equal 1 1" True jpbFalse]
  by (simp add: path_and_def path_or_def kleene_or_def)

section \<open>Properties of the arithmetic\<close>

lemma JsonValueListGetList_Append:
  "JsonValueListGetList (JsonValueListAppend jvl jbv) = JsonValueListGetList jvl @ [jbv]"
  by (simp add: JsonValueListGetList_def JsonValueListAppend_def split: option.splits)

lemma JsonValueListGetList_AppendAll:
  "JsonValueListGetList (JsonValueListAppendAll jvl items) = JsonValueListGetList jvl @ items"
  unfolding JsonValueListAppendAll_def
  by (induction items arbitrary: jvl) (simp_all add: JsonValueListGetList_Append)

lemma single_numeric_None: "single_numeric seq = None \<longleftrightarrow> \<not> numeric_singleton seq"
proof (cases "jvl_singleton seq")
  case (Some s)
  then show ?thesis
    by (cases s)
       (simp_all add: single_numeric_def numeric_singleton_def JsonValueListLength_def
          JsonValueListHead_def JsonValueListGetList_def getScalar_def)
next
  case None
  show ?thesis
  proof (cases "jvl_list seq")
    case Nil
    with None show ?thesis
      by (simp add: single_numeric_def numeric_singleton_def JsonValueListLength_def
          JsonValueListHead_def JsonValueListGetList_def)
  next
    case (Cons x xs)
    with None show ?thesis
      by (cases x; cases xs)
         (simp_all add: single_numeric_def numeric_singleton_def JsonValueListLength_def
            JsonValueListHead_def JsonValueListGetList_def getScalar_def)
  qed
qed

text \<open>
  Claim C5.  A binary arithmetic expression evaluates its left and then its right operand,
  each with the unwrapping of the result.  Where both evaluations return without an error
  and one of the two sequences is not exactly one numeric value, the operation fails with
  \<open>SINGLETON_SQL_JSON_ITEM_REQUIRED\<close>: the error is raised if \<open>throwErrors\<close> is set, and
  the status Error is returned otherwise.  The function is that of each of the five
  operators; they differ in \<open>func\<close> only.
\<close>

theorem executeBinaryArithmExpr_singleton_required:
  assumes "jsp_content jsp = content_args larg rarg"
    and "executeItemOptUnwrapResult T cxt larg jb True (Some JsonValueListInit) =
           Inr (jper1, cxt1, Some lseq)"
    and "jper1 \<noteq> jperError"
    and "executeItemOptUnwrapResult T cxt1 rarg jb True (Some JsonValueListInit) =
           Inr (jper2, cxt2, Some rseq)"
    and "jper2 \<noteq> jperError"
    and "\<not> (numeric_singleton lseq \<and> numeric_singleton rseq)"
  shows "if throwErrors cxt2
         then raises (executeBinaryArithmExpr T cxt jsp jb func found)
                ERRCODE_SINGLETON_SQL_JSON_ITEM_REQUIRED
         else executeBinaryArithmExpr T cxt jsp jb func found = Inr (jperError, cxt2, found)"
proof (cases "single_numeric lseq")
  case None
  with assms show ?thesis
    by (simp add: executeBinaryArithmExpr_def jperIsError_def local_list_def
          RETURN_ERROR_def jspThrowErrors_def raises_def)
next
  case (Some lval)
  then have "numeric_singleton lseq"
    using single_numeric_None [of lseq] by simp
  with assms have "single_numeric rseq = None"
    using single_numeric_None [of rseq] by simp
  with Some assms show ?thesis
    by (simp add: executeBinaryArithmExpr_def jperIsError_def local_list_def
          RETURN_ERROR_def jspThrowErrors_def raises_def)
qed

theorem executeBinaryArithmExpr_singleton_required_witness:
  "executeBinaryArithmExpr (example_walker 5) (example_lax_cxt example_doc) path_1_plus_a
     (JsonbBinary example_doc) (numeric_add_opt_error example_host)
     (Some JsonValueListInit) =
     Inr (jperError, example_lax_cxt example_doc, Some JsonValueListInit) \<and>
   raises
     (executeBinaryArithmExpr (example_walker 5) example_strict_cxt path_1_plus_a
        (JsonbBinary example_doc) (numeric_add_opt_error example_host)
        (Some JsonValueListInit))
     ERRCODE_SINGLETON_SQL_JSON_ITEM_REQUIRED"
proof -
  let ?one = "\<lparr>jvl_singleton = Some (example_number 1), jvl_list = []\<rparr>"
  let ?a = "\<lparr>jvl_singleton = Some (JsonbString ''a''), jvl_list = []\<rparr>"
  let ?string = "JsonPathItem jpiString (content_value (JsonbString ''a'')) None"
  have content: "jsp_content path_1_plus_a = content_args (example_literal 1) ?string"
    by (simp add: path_1_plus_a_def)
  have l: "executeItemOptUnwrapResult (example_walker 5) (example_lax_cxt example_doc)
      (example_literal 1) (JsonbBinary example_doc) True (Some JsonValueListInit) =
      Inr (jperOk, example_lax_cxt example_doc, Some ?one)"
    by code_simp
  have r: "executeItemOptUnwrapResult (example_walker 5) (example_lax_cxt example_doc)
      ?string (JsonbBinary example_doc) True (Some JsonValueListInit) =
      Inr (jperOk, example_lax_cxt example_doc, Some ?a)"
    by code_simp
  have l': "executeItemOptUnwrapResult (example_walker 5) example_strict_cxt
      (example_literal 1) (JsonbBinary example_doc) True (Some JsonValueListInit) =
      Inr (jperOk, example_strict_cxt, Some ?one)"
    by code_simp
  have r': "executeItemOptUnwrapResult (example_walker 5) example_strict_cxt
      ?string (JsonbBinary example_doc) True (Some JsonValueListInit) =
      Inr (jperOk, example_strict_cxt, Some ?a)"
    by code_simp
  have ok: "jperOk \<noteq> jperError" by simp
  have bad: "\<not> (numeric_singleton ?one \<and> numeric_singleton ?a)"
    by (simp add: numeric_singleton_def JsonValueListGetList_def)
  have lax: "\<not> throwErrors (example_lax_cxt example_doc)"
    by (simp add: example_lax_cxt_def executeJsonPath_context_def)
  have strict: "throwErrors example_strict_cxt"
    by (simp add: example_strict_cxt_def executeJsonPath_context_def)
  show ?thesis
    using lax strict
      executeBinaryArithmExpr_singleton_required [OF content l ok r ok bad]
      executeBinaryArithmExpr_singleton_required [OF content l' ok r' ok bad]
    by simp
qed

lemma executeUnaryArithmExpr_loop_outputs:
  assumes "outputs_in_order T cxt jsp
      (map (\<lambda>n. JsonbNumeric (case func of Some f \<Rightarrow> f n | None \<Rightarrow> n)) ns) found jper =
      Some r"
    and "\<not> jperIsError jper"
  shows "executeUnaryArithmExpr_loop T cxt jsp func (map JsonbNumeric ns @ rest)
      (Some found) jper =
    (case r of
       Inl e \<Rightarrow> Inl e
     | Inr (jper', cxt', found') \<Rightarrow>
         if jperIsError jper' then r
         else executeUnaryArithmExpr_loop T cxt' jsp func rest found' jper')"
  using assms
proof (induction ns arbitrary: cxt found jper)
  case Nil
  then show ?case
    by auto
next
  case (Cons n ns)
  then show ?case
    by (auto simp: getScalar_def jperIsError_def
          split: sum.splits prod.splits option.splits if_splits)
qed

lemma executeUnaryArithmExpr_loop_stop:
  assumes "jbv_type x \<noteq> jbvNumeric"
  shows "executeUnaryArithmExpr_loop T cxt jsp func (x # rest) (Some found) jper =
    RETURN_ERROR cxt (Some found)
      (ereport ERRCODE_SQL_JSON_NUMBER_NOT_FOUND
         ''operand of unary jsonpath operator %s is not a numeric value'')"
  using assms by (cases x) (simp_all add: getScalar_def)

lemma outputs_in_order_Some:
  "outputs_in_order T cxt jsp outs found jper = Some (Inr (jper', cxt', found')) \<Longrightarrow>
   found' \<noteq> None"
  by (induction outs arbitrary: cxt found jper)
     (auto split: sum.splits prod.splits option.splits if_splits)

lemma outputs_in_order_last:
  assumes "jsp_next jsp = None"
  shows "outputs_in_order T cxt jsp outs found jper =
    Some (Inr (if outs = [] then jper else jperOk, cxt,
               Some (JsonValueListAppendAll found outs)))"
  using assms
  by (induction outs arbitrary: found jper)
     (simp_all add: JsonValueListAppendAll_def executeNextItem_def jperIsError_def
        jspHasNext_def)

text \<open>
  Claim C10.  A unary arithmetic expression evaluates its operand with the unwrapping of
  the result and has no requirement on the length of the sequence.  Where the results
  are collected, it makes one output item for each numeric item, in order: the item
  itself for the unary plus, and the value of the function for the unary minus.  Each
  output item is handed to the rest of the path in order, whether a step follows or not,
  and the expression returns what this gives, if every item is numeric.  At the first
  item that is not numeric it fails with \<open>SQL_JSON_NUMBER_NOT_FOUND\<close>, after the outputs
  for the items before it have been handed on without an error.  Where the expression is
  the last step, the outputs are appended to the result list.
\<close>

theorem executeUnaryArithmExpr_elementwise:
  assumes "jsp_content jsp = content_arg elem"
    and "executeItemOptUnwrapResult T cxt elem jb True (Some JsonValueListInit) =
           Inr (jper, cxt1, Some seq)"
    and "jper \<noteq> jperError"
    and "outs = map (\<lambda>n. JsonbNumeric (case func of Some f \<Rightarrow> f n | None \<Rightarrow> n)) ns"
  shows "(JsonValueListGetList seq = map JsonbNumeric ns \<and>
          outputs_in_order T cxt1 jsp outs found jperNotFound = Some r \<longrightarrow>
            executeUnaryArithmExpr T cxt jsp jb func (Some found) = r) \<and>
         (JsonValueListGetList seq = map JsonbNumeric ns @ x # rest \<and>
          jbv_type x \<noteq> jbvNumeric \<and>
          outputs_in_order T cxt1 jsp outs found jperNotFound = Some r \<longrightarrow>
            executeUnaryArithmExpr T cxt jsp jb func (Some found) =
              (case r of
                 Inl e \<Rightarrow> Inl e
               | Inr (jper', cxt', found') \<Rightarrow>
                   if jperIsError jper' then r
                   else
                     RETURN_ERROR cxt' found'
                       (ereport ERRCODE_SQL_JSON_NUMBER_NOT_FOUND
                          ''operand of unary jsonpath operator %s is not a numeric value''))) \<and>
         (jsp_next jsp = None \<longrightarrow>
            outputs_in_order T cxt1 jsp outs found jperNotFound =
              Some (Inr (if ns = [] then jperNotFound else jperOk, cxt1,
                         Some (JsonValueListAppendAll found outs)))) \<and>
         (jsp_next jsp = None \<and> JsonValueListGetList seq = map JsonbNumeric ns \<longrightarrow>
            executeUnaryArithmExpr T cxt jsp jb func (Some found) =
              Inr (if ns = [] then jperNotFound else jperOk, cxt1,
                   Some (JsonValueListAppendAll found outs))) \<and>
         (jsp_next jsp = None \<and> JsonValueListGetList seq = map JsonbNumeric ns @ x # rest \<and>
          jbv_type x \<noteq> jbvNumeric \<longrightarrow>
            executeUnaryArithmExpr T cxt jsp jb func (Some found) =
              RETURN_ERROR cxt1 (Some (JsonValueListAppendAll found outs))
                (ereport ERRCODE_SQL_JSON_NUMBER_NOT_FOUND
                   ''operand of unary jsonpath operator %s is not a numeric value'')) \<and>
         JsonValueListGetList (JsonValueListAppendAll found outs) =
           JsonValueListGetList found @ outs"
proof -
  let ?err = "ereport ERRCODE_SQL_JSON_NUMBER_NOT_FOUND
    ''operand of unary jsonpath operator %s is not a numeric value''"
  have expr: "executeUnaryArithmExpr T cxt jsp jb func (Some found) =
      executeUnaryArithmExpr_loop T cxt1 jsp func (JsonValueListGetList seq) (Some found)
        jperNotFound"
    using assms(1-3)
    by (simp add: executeUnaryArithmExpr_def jperIsError_def local_list_def)
  have ok: "\<not> jperIsError jperNotFound"
    by (simp add: jperIsError_def)
  have all: "executeUnaryArithmExpr T cxt jsp jb func (Some found) = r'"
    if "JsonValueListGetList seq = map JsonbNumeric ns"
      and "outputs_in_order T cxt1 jsp outs found jperNotFound = Some r'" for r'
    using executeUnaryArithmExpr_loop_outputs [OF that(2) [unfolded assms(4)] ok, of "[]"]
      that(1) expr
    by (auto split: sum.splits)
  have stop: "executeUnaryArithmExpr T cxt jsp jb func (Some found) =
      (case r' of
         Inl e \<Rightarrow> Inl e
       | Inr (jper', cxt', found') \<Rightarrow>
           if jperIsError jper' then r' else RETURN_ERROR cxt' found' ?err)"
    if "JsonValueListGetList seq = map JsonbNumeric ns @ x # rest"
      and "jbv_type x \<noteq> jbvNumeric"
      and "outputs_in_order T cxt1 jsp outs found jperNotFound = Some r'" for r'
  proof (cases r')
    case (Inl e)
    with executeUnaryArithmExpr_loop_outputs [OF that(3) [unfolded assms(4)] ok, of "x # rest"]
      that(1) expr
    show ?thesis
      by simp
  next
    case (Inr t)
    obtain jper' cxt' found' where t: "t = (jper', cxt', found')"
      by (cases t)
    from that(3) Inr t obtain f where f: "found' = Some f"
      using outputs_in_order_Some [of T cxt1 jsp outs found jperNotFound jper' cxt' found']
      by auto
    from executeUnaryArithmExpr_loop_outputs [OF that(3) [unfolded assms(4)] ok, of "x # rest"]
      that(1) expr Inr t f
      executeUnaryArithmExpr_loop_stop [OF that(2), of T cxt' jsp func rest f jper']
    show ?thesis
      by simp
  qed
  have last: "outputs_in_order T cxt1 jsp outs found jperNotFound =
      Some (Inr (if ns = [] then jperNotFound else jperOk, cxt1,
                 Some (JsonValueListAppendAll found outs)))"
    if "jsp_next jsp = None"
    using outputs_in_order_last [OF that, of T cxt1 outs found jperNotFound] assms(4)
    by simp
  have "executeUnaryArithmExpr T cxt jsp jb func (Some found) =
      Inr (if ns = [] then jperNotFound else jperOk, cxt1,
           Some (JsonValueListAppendAll found outs))"
    if "jsp_next jsp = None" and "JsonValueListGetList seq = map JsonbNumeric ns"
    using all [OF that(2) last [OF that(1)]] .
  moreover have "executeUnaryArithmExpr T cxt jsp jb func (Some found) =
      RETURN_ERROR cxt1 (Some (JsonValueListAppendAll found outs)) ?err"
    if "jsp_next jsp = None"
      and "JsonValueListGetList seq = map JsonbNumeric ns @ x # rest"
      and "jbv_type x \<noteq> jbvNumeric"
    using stop [OF that(2,3) last [OF that(1)]]
    by (simp add: jperIsError_def)
  moreover have "JsonValueListGetList (JsonValueListAppendAll found outs) =
      JsonValueListGetList found @ outs"
    by (rule JsonValueListGetList_AppendAll)
  ultimately show ?thesis
    using all stop last by blast
qed

theorem executeUnaryArithmExpr_elementwise_witness:
  "executeUnaryArithmExpr (example_walker 5) (example_lax_cxt example_array_1_2)
     path_minus_root (JsonbBinary example_array_1_2) (Some (numeric_uminus example_host))
     (Some JsonValueListInit) =
     Inr (jperOk, example_lax_cxt example_array_1_2,
          Some \<lparr>jvl_singleton = None,
                 jvl_list = [example_number (- 1), example_number (- 2)]\<rparr>) \<and>
   executeUnaryArithmExpr (example_walker 5) (example_lax_cxt example_array_1_a)
     path_minus_root (JsonbBinary example_array_1_a) (Some (numeric_uminus example_host))
     (Some JsonValueListInit) =
     Inr (jperError, example_lax_cxt example_array_1_a,
          Some \<lparr>jvl_singleton = Some (example_number (- 1)), jvl_list = []\<rparr>) \<and>
   executeUnaryArithmExpr (example_walker 5) (example_lax_cxt example_array_1_2)
     (path_minus_root_equal (- 2)) (JsonbBinary example_array_1_2)
     (Some (numeric_uminus example_host)) (Some JsonValueListInit) =
     Inr (jperOk, example_lax_cxt example_array_1_2,
          Some \<lparr>jvl_singleton = Some (example_number (- 2)), jvl_list = []\<rparr>) \<and>
   executeUnaryArithmExpr (example_walker 5) (example_lax_cxt example_array_1_a)
     (path_minus_root_equal (- 1)) (JsonbBinary example_array_1_a)
     (Some (numeric_uminus example_host)) (Some JsonValueListInit) =
     Inr (jperError, example_lax_cxt example_array_1_a,
          Some \<lparr>jvl_singleton = Some (example_number (- 1)), jvl_list = []\<rparr>)"
proof -
  have content: "jsp_content path_minus_root = content_arg path_root"
    and last: "jsp_next path_minus_root = None"
    and content': "jsp_content (path_minus_root_equal n) = content_arg path_root" for n
    by (simp_all add: path_minus_root_def path_minus_root_equal_def)
  have a: "executeItemOptUnwrapResult (example_walker 5) (example_lax_cxt example_array_1_2)
      path_root (JsonbBinary example_array_1_2) True (Some JsonValueListInit) =
      Inr (jperOk, example_lax_cxt example_array_1_2,
           Some \<lparr>jvl_singleton = None, jvl_list = [example_number 1, example_number 2]\<rparr>)"
    by code_simp
  have b: "executeItemOptUnwrapResult (example_walker 5) (example_lax_cxt example_array_1_a)
      path_root (JsonbBinary example_array_1_a) True (Some JsonValueListInit) =
      Inr (jperOk, example_lax_cxt example_array_1_a,
           Some \<lparr>jvl_singleton = None, jvl_list = [example_number 1, JsonbString ''a'']\<rparr>)"
    by code_simp
  have c: "outputs_in_order (example_walker 5) (example_lax_cxt example_array_1_2)
      (path_minus_root_equal (- 2))
      (map (\<lambda>n. JsonbNumeric (case Some (numeric_uminus example_host) of
                                 Some f \<Rightarrow> f n | None \<Rightarrow> n))
         [NumericFinite 1 0, NumericFinite 2 0])
      JsonValueListInit jperNotFound =
      Some (Inr (jperOk, example_lax_cxt example_array_1_2,
                 Some \<lparr>jvl_singleton = Some (example_number (- 2)), jvl_list = []\<rparr>))"
    by code_simp
  have d: "outputs_in_order (example_walker 5) (example_lax_cxt example_array_1_a)
      (path_minus_root_equal (- 1))
      (map (\<lambda>n. JsonbNumeric (case Some (numeric_uminus example_host) of
                                 Some f \<Rightarrow> f n | None \<Rightarrow> n))
         [NumericFinite 1 0])
      JsonValueListInit jperNotFound =
      Some (Inr (jperOk, example_lax_cxt example_array_1_a,
                 Some \<lparr>jvl_singleton = Some (example_number (- 1)), jvl_list = []\<rparr>))"
    by code_simp
  have ok: "jperOk \<noteq> jperError" by simp
  have lax: "\<not> throwErrors (example_lax_cxt doc)" for doc
    by (simp add: example_lax_cxt_def executeJsonPath_context_def)
  have seq_a: "JsonValueListGetList
      \<lparr>jvl_singleton = None, jvl_list = [example_number 1, example_number 2]\<rparr> =
      map JsonbNumeric [NumericFinite 1 0, NumericFinite 2 0]"
    and seq_b: "JsonValueListGetList
      \<lparr>jvl_singleton = None, jvl_list = [example_number 1, JsonbString ''a'']\<rparr> =
      map JsonbNumeric [NumericFinite 1 0] @ JsonbString ''a'' # []"
    and str: "jbv_type (JsonbString ''a'') \<noteq> jbvNumeric"
    by (simp_all add: JsonValueListGetList_def example_number_def)
  have one: "executeUnaryArithmExpr (example_walker 5) (example_lax_cxt example_array_1_2)
     path_minus_root (JsonbBinary example_array_1_2) (Some (numeric_uminus example_host))
     (Some JsonValueListInit) =
     Inr (jperOk, example_lax_cxt example_array_1_2,
          Some \<lparr>jvl_singleton = None,
                 jvl_list = [example_number (- 1), example_number (- 2)]\<rparr>)"
    using
      executeUnaryArithmExpr_elementwise [OF content a ok refl,
        where ns = "[NumericFinite 1 0, NumericFinite 2 0]" and found = JsonValueListInit]
      last seq_a
    by (simp add: example_number_def JsonValueListAppendAll_def JsonValueListAppend_def
          JsonValueListInit_def example_host_def)
  have two: "executeUnaryArithmExpr (example_walker 5) (example_lax_cxt example_array_1_a)
     path_minus_root (JsonbBinary example_array_1_a) (Some (numeric_uminus example_host))
     (Some JsonValueListInit) =
     Inr (jperError, example_lax_cxt example_array_1_a,
          Some \<lparr>jvl_singleton = Some (example_number (- 1)), jvl_list = []\<rparr>)"
    using
      executeUnaryArithmExpr_elementwise [OF content b ok refl,
        where ns = "[NumericFinite 1 0]" and x = "JsonbString ''a''" and rest = "[]"
          and found = JsonValueListInit]
      last seq_b str
    by (simp add: lax example_number_def JsonValueListAppendAll_def JsonValueListAppend_def
          JsonValueListInit_def example_host_def RETURN_ERROR_def jspThrowErrors_def)
  have three: "executeUnaryArithmExpr (example_walker 5) (example_lax_cxt example_array_1_2)
     (path_minus_root_equal (- 2)) (JsonbBinary example_array_1_2)
     (Some (numeric_uminus example_host)) (Some JsonValueListInit) =
     Inr (jperOk, example_lax_cxt example_array_1_2,
          Some \<lparr>jvl_singleton = Some (example_number (- 2)), jvl_list = []\<rparr>)"
    using
      executeUnaryArithmExpr_elementwise [OF content' [of "- 2"] a ok refl,
        where ns = "[NumericFinite 1 0, NumericFinite 2 0]" and found = JsonValueListInit
          and r = "Inr (jperOk, example_lax_cxt example_array_1_2,
                 Some \<lparr>jvl_singleton = Some (example_number (- 2)), jvl_list = []\<rparr>)"]
      seq_a c
    by blast
  have four: "executeUnaryArithmExpr (example_walker 5) (example_lax_cxt example_array_1_a)
     (path_minus_root_equal (- 1)) (JsonbBinary example_array_1_a)
     (Some (numeric_uminus example_host)) (Some JsonValueListInit) =
     Inr (jperError, example_lax_cxt example_array_1_a,
          Some \<lparr>jvl_singleton = Some (example_number (- 1)), jvl_list = []\<rparr>)"
    using
      executeUnaryArithmExpr_elementwise [OF content' [of "- 1"] b ok refl,
        where ns = "[NumericFinite 1 0]" and x = "JsonbString ''a''" and rest = "[]"
          and found = JsonValueListInit
          and r = "Inr (jperOk, example_lax_cxt example_array_1_a,
                 Some \<lparr>jvl_singleton = Some (example_number (- 1)), jvl_list = []\<rparr>)"]
      seq_b str d
    by (simp add: lax RETURN_ERROR_def jspThrowErrors_def jperIsError_def)
  from one two three four show ?thesis
    by blast
qed

section \<open>Properties of .keyvalue()\<close>









section \<open>Properties of JSON\_TABLE\<close>

lemma JsonTablePlanScanNextRow_false:
  assumes "JsonTablePlanScanNextRow T h args path errorOnError found iter cur ordinal nested =
      Inr (False, planstate')"
  shows "it_value iter = None \<and>
    (\<exists>nested1. planstate' =
       JsonTablePathScanState path errorOnError found (snd (JsonValueListNext iter)) None
         ordinal nested1)"
  using assms
  by (auto simp: JsonValueListNext_def Let_def
        split: if_splits option.splits sum.splits prod.splits list.splits)

lemma JsonTablePlanScanNextRow_exhausted:
  assumes "it_value iter = None" and "it_next iter = []"
  shows "JsonTablePlanScanNextRow T h args path errorOnError found iter None ordinal nested =
    Inr (False, JsonTablePathScanState path errorOnError found iter None ordinal nested)"
  using assms by (simp add: JsonValueListNext_def)

lemma JsonTablePlanScanNextRow_valid:
  assumes "JsonTablePlanScanNextRow T h args path errorOnError found iter cur ordinal nested =
      Inr (b, planstate')"
    and "it_value iter = None \<longrightarrow> it_next iter = []"
  shows "iterators_valid planstate'"
  using assms
  by (auto simp: JsonValueListNext_def Let_def
        split: if_splits option.splits sum.splits prod.splits list.splits)

lemma JsonTablePlanJoinNextRow_cases:
  assumes "JsonTablePlanJoinNextRow T h args left right = Inr (b, planstate')"
  obtains left' where "JsonTablePlanNextRow T h args left = Inr (True, left')"
      and "b" and "planstate' = JsonTableSiblingJoinState left' right"
  | left' right' where "JsonTablePlanNextRow T h args left = Inr (False, left')"
      and "JsonTablePlanNextRow T h args right = Inr (b, right')"
      and "planstate' = JsonTableSiblingJoinState left' right'"
  using assms
  by (auto split: if_splits sum.splits prod.splits)

lemma JsonTablePlanNextRow_valid:
  "iterators_valid planstate \<Longrightarrow>
   JsonTablePlanNextRow T h args planstate = Inr (b, planstate') \<Longrightarrow>
   iterators_valid planstate'"
proof (induction planstate arbitrary: b planstate')
  case (JsonTablePathScanState path errorOnError found iter cur ordinal nested)
  then show ?case
    using JsonTablePlanScanNextRow_valid [of T h args path errorOnError found iter cur ordinal
        nested b planstate']
    by simp
next
  case (JsonTableSiblingJoinState left right)
  from JsonTableSiblingJoinState.prems(2)
  have "JsonTablePlanJoinNextRow T h args left right = Inr (b, planstate')"
    by simp
  then show ?case
  proof (cases rule: JsonTablePlanJoinNextRow_cases)
    case (1 left')
    with JsonTableSiblingJoinState.IH(1) JsonTableSiblingJoinState.prems(1) show ?thesis
      by auto
  next
    case (2 left' right')
    with JsonTableSiblingJoinState.IH JsonTableSiblingJoinState.prems(1) show ?thesis
      by auto
  qed
qed

text \<open>A plan that has run out of rows stays so, and its state does not change any more.\<close>

lemma JsonTablePlanNextRow_exhausted:
  "iterators_valid planstate \<Longrightarrow>
   JsonTablePlanNextRow T h args planstate = Inr (False, planstate') \<Longrightarrow>
   JsonTablePlanNextRow T h args planstate' = Inr (False, planstate')"
proof (induction planstate arbitrary: planstate')
  case (JsonTablePathScanState path errorOnError found iter cur ordinal nested)
  from JsonTablePathScanState.prems(2)
  have "JsonTablePlanScanNextRow T h args path errorOnError found iter cur ordinal nested =
      Inr (False, planstate')"
    by simp
  from JsonTablePlanScanNextRow_false [OF this]
  obtain nested1 where none: "it_value iter = None"
    and state: "planstate' =
      JsonTablePathScanState path errorOnError found (snd (JsonValueListNext iter)) None
        ordinal nested1"
    by auto
  from none JsonTablePathScanState.prems(1) have nil: "it_next iter = []"
    by simp
  with none have "snd (JsonValueListNext iter) = iter"
    by (simp add: JsonValueListNext_def)
  with state show ?case
    using JsonTablePlanScanNextRow_exhausted [OF none nil, where T = T and h = h
        and args = args and path = path and errorOnError = errorOnError and found = found
        and ordinal = ordinal and nested = nested1]
    by (simp del: JsonTablePlanScanNextRow.simps)
next
  case (JsonTableSiblingJoinState left right)
  from JsonTableSiblingJoinState.prems(2)
  have "JsonTablePlanJoinNextRow T h args left right = Inr (False, planstate')"
    by simp
  then show ?case
  proof (cases rule: JsonTablePlanJoinNextRow_cases)
    case (1 left')
    then show ?thesis
      by simp
  next
    case (2 left' right')
    with JsonTableSiblingJoinState.IH(1) [of left'] JsonTableSiblingJoinState.IH(2) [of right']
      JsonTableSiblingJoinState.prems(1)
    show ?thesis
      by simp
  qed
qed

lemma fetched_rows_unique:
  "fetched_rows T h args planstate rows final \<Longrightarrow>
   fetched_rows T h args planstate rows' final' \<Longrightarrow> rows = rows' \<and> final = final'"
proof (induction rows arbitrary: planstate rows')
  case Nil
  then show ?case
    by (cases rows') auto
next
  case (Cons row rows)
  then show ?case
    by (cases rows') auto
qed

lemma fetched_rows_right:
  assumes "JsonTablePlanNextRow T h args left = Inr (False, left')"
    and "JsonTablePlanNextRow T h args left' = Inr (False, left')"
  shows "fetched_rows T h args right rrows right' \<Longrightarrow>
    fetched_rows T h args (JsonTableSiblingJoinState left right)
      (map (JsonTableSiblingJoinState left') rrows) (JsonTableSiblingJoinState left' right')"
  using assms(1)
proof (induction rrows arbitrary: left right)
  case Nil
  then show ?case
    by simp
next
  case (Cons row rrows)
  from Cons.prems have "fetched_rows T h args (JsonTableSiblingJoinState left' row)
      (map (JsonTableSiblingJoinState left') rrows) (JsonTableSiblingJoinState left' right')"
    using assms(2) by (intro Cons.IH) simp_all
  with Cons.prems show ?case
    by simp
qed

lemma fetched_rows_join:
  "iterators_valid left \<Longrightarrow> fetched_rows T h args left lrows left' \<Longrightarrow>
   fetched_rows T h args right rrows right' \<Longrightarrow>
   fetched_rows T h args (JsonTableSiblingJoinState left right)
     (map (\<lambda>row. JsonTableSiblingJoinState row right) lrows @
      map (JsonTableSiblingJoinState left') rrows)
     (JsonTableSiblingJoinState left' right')"
proof (induction lrows arbitrary: left)
  case Nil
  then have "JsonTablePlanNextRow T h args left = Inr (False, left')"
    by simp
  moreover from this Nil.prems(1) have "JsonTablePlanNextRow T h args left' = Inr (False, left')"
    by (simp add: JsonTablePlanNextRow_exhausted)
  ultimately show ?case
    using Nil.prems(3) by (simp add: fetched_rows_right)
next
  case (Cons row lrows)
  then have row: "JsonTablePlanNextRow T h args left = Inr (True, row)"
    and rest: "fetched_rows T h args row lrows left'"
    by simp_all
  from Cons.prems(1) row have "iterators_valid row"
    by (rule JsonTablePlanNextRow_valid)
  then have "fetched_rows T h args (JsonTableSiblingJoinState row right)
     (map (\<lambda>row. JsonTableSiblingJoinState row right) lrows @
      map (JsonTableSiblingJoinState left') rrows)
     (JsonTableSiblingJoinState left' right')"
    using rest Cons.prems(3) by (rule Cons.IH)
  with row show ?case
    by simp
qed

lemma JsonTablePlanNextRow_returns_join:
  "JsonTablePlanNextRow_returns T h args (JsonTableSiblingJoinState x y) = Inr False \<longleftrightarrow>
   JsonTablePlanNextRow_returns T h args x = Inr False \<and>
   JsonTablePlanNextRow_returns T h args y = Inr False"
  by (auto simp: JsonTablePlanNextRow_returns_def split: sum.splits prod.splits if_splits)

text \<open>The examples: the plan after its reset for the document, and the rows of its scans.\<close>

lemma example_plan_reset:
  "JsonTableResetNestedPlan (example_walker 5) ([] :: unit list) (Some example_doc)
     (JsonTableInitPlan example_plan) =
   Inr (JsonTableSiblingJoinState
          (example_left_state (Some (example_keyvalue ''a'' 1)) [example_keyvalue ''b'' 2]
             None 0)
          (example_right_state (Some (JsonbBinary example_doc)) None 0))"
  by code_simp

lemma example_left_rows:
  "fetched_rows (example_walker 5) example_host ([] :: unit list)
     (example_left_state (Some (example_keyvalue ''a'' 1)) [example_keyvalue ''b'' 2] None 0)
     [example_left_state (Some (example_keyvalue ''b'' 2)) []
        (Some (example_keyvalue ''a'' 1)) 1,
      example_left_state None [] (Some (example_keyvalue ''b'' 2)) 2]
     (example_left_state None [] None 2)"
  by code_simp

lemma example_right_rows:
  "fetched_rows (example_walker 5) example_host ([] :: unit list)
     (example_right_state (Some (JsonbBinary example_doc)) None 0)
     [example_right_state None (Some (JsonbBinary example_doc)) 1]
     (example_right_state None None 1)"
  by code_simp

lemma example_left_valid:
  "iterators_valid
     (example_left_state (Some (example_keyvalue ''a'' 1)) [example_keyvalue ''b'' 2] None 0)"
  by (simp add: example_left_state_def)

text \<open>
  C8.  For every JSON\_TABLE sibling-join node, the sequence of rows fetched from it is
  exactly the rows of the left child followed by the rows of the right child.  Let the
  iterators of the left child be valid, let the fetches from the left child alone give
  the rows \<open>lrows\<close> and leave the state \<open>left'\<close>, and let the fetches from the right child
  alone give the rows \<open>rrows\<close> and leave \<open>right'\<close>.  Then the rows fetched from the join are
  these and no others: first the rows of the left child, each beside the right child in
  its state \<open>right\<close>, which no fetch has touched yet, then the rows of the right child,
  each beside the left child in its state \<open>left'\<close>, in which it has run out of rows; the
  join is left in the state of \<open>left'\<close> and \<open>right'\<close>.  The number of the rows is the sum of
  the numbers of the rows of the two children.  And for all states \<open>x\<close> and \<open>y\<close> of two
  siblings, the join returns false, that it has run out of rows, exactly when both of
  them return false.
\<close>

theorem JsonTablePlanJoinNextRow_rows:
  assumes "iterators_valid left"
    and "fetched_rows T h args left lrows left'"
    and "fetched_rows T h args right rrows right'"
  shows "(fetched_rows T h args (JsonTableSiblingJoinState left right) rows final \<longleftrightarrow>
            rows = map (\<lambda>row. JsonTableSiblingJoinState row right) lrows @
                   map (JsonTableSiblingJoinState left') rrows \<and>
            final = JsonTableSiblingJoinState left' right') \<and>
         (fetched_rows T h args (JsonTableSiblingJoinState left right) rows final \<longrightarrow>
            length rows = length lrows + length rrows) \<and>
         (JsonTablePlanNextRow_returns T h args (JsonTableSiblingJoinState x y) = Inr False
            \<longleftrightarrow>
          JsonTablePlanNextRow_returns T h args x = Inr False \<and>
          JsonTablePlanNextRow_returns T h args y = Inr False)"
proof -
  let ?rows = "map (\<lambda>row. JsonTableSiblingJoinState row right) lrows @
    map (JsonTableSiblingJoinState left') rrows"
  have join: "fetched_rows T h args (JsonTableSiblingJoinState left right) ?rows
      (JsonTableSiblingJoinState left' right')"
    using assms by (rule fetched_rows_join)
  have exact: "fetched_rows T h args (JsonTableSiblingJoinState left right) rows final \<longleftrightarrow>
      rows = ?rows \<and> final = JsonTableSiblingJoinState left' right'"
    using join fetched_rows_unique [OF join, of rows final] by blast
  moreover have "length ?rows = length lrows + length rrows"
    by simp
  ultimately show ?thesis
    using JsonTablePlanNextRow_returns_join [of T h args x y] by blast
qed

theorem JsonTablePlanJoinNextRow_rows_witness:
  "fetched_rows (example_walker 5) example_host ([] :: unit list)
     (JsonTableSiblingJoinState
        (example_left_state (Some (example_keyvalue ''a'' 1)) [example_keyvalue ''b'' 2]
           None 0)
        (example_right_state (Some (JsonbBinary example_doc)) None 0))
     [JsonTableSiblingJoinState
        (example_left_state (Some (example_keyvalue ''b'' 2)) []
           (Some (example_keyvalue ''a'' 1)) 1)
        (example_right_state (Some (JsonbBinary example_doc)) None 0),
      JsonTableSiblingJoinState
        (example_left_state None [] (Some (example_keyvalue ''b'' 2)) 2)
        (example_right_state (Some (JsonbBinary example_doc)) None 0),
      JsonTableSiblingJoinState
        (example_left_state None [] None 2)
        (example_right_state None (Some (JsonbBinary example_doc)) 1)]
     (JsonTableSiblingJoinState
        (example_left_state None [] None 2) (example_right_state None None 1)) \<and>
   length [example_left_state (Some (example_keyvalue ''b'' 2)) []
             (Some (example_keyvalue ''a'' 1)) 1,
           example_left_state None [] (Some (example_keyvalue ''b'' 2)) 2] +
     length [example_right_state None (Some (JsonbBinary example_doc)) 1] = 3 \<and>
   JsonTablePlanNextRow_returns (example_walker 5) example_host ([] :: unit list)
     (JsonTableSiblingJoinState
        (example_left_state None [] None 2) (example_right_state None None 1)) = Inr False"
proof -
  have x: "JsonTablePlanNextRow_returns (example_walker 5) example_host ([] :: unit list)
      (example_left_state None [] None 2) = Inr False"
    by code_simp
  have y: "JsonTablePlanNextRow_returns (example_walker 5) example_host ([] :: unit list)
      (example_right_state None None 1) = Inr False"
    by code_simp
  show ?thesis
    using x y
      JsonTablePlanJoinNextRow_rows [OF example_left_valid example_left_rows
        example_right_rows,
        where x = "example_left_state None [] None 2"
          and y = "example_right_state None None 1"
          and final = "JsonTableSiblingJoinState
            (example_left_state None [] None 2) (example_right_state None None 1)"
          and rows = "[JsonTableSiblingJoinState
              (example_left_state (Some (example_keyvalue ''b'' 2)) []
                 (Some (example_keyvalue ''a'' 1)) 1)
              (example_right_state (Some (JsonbBinary example_doc)) None 0),
            JsonTableSiblingJoinState
              (example_left_state None [] (Some (example_keyvalue ''b'' 2)) 2)
              (example_right_state (Some (JsonbBinary example_doc)) None 0),
            JsonTableSiblingJoinState
              (example_left_state None [] None 2)
              (example_right_state None (Some (JsonbBinary example_doc)) 1)]"]
    by (simp del: fetched_rows.simps)
qed

end
